theory Spec2Isabelle
  imports Complex_Main "HOL-Library.Word"
begin

section \<open>JavaScript values, exceptions and effects\<close>

text \<open>
  The API is TypeScript running on Node. A thrown value (or the reason of a rejected
  promise) is either an \<open>Error\<close> carrying a message or some other value; the handlers of
  the source only ever read \<open>error.message\<close>.
\<close>

datatype js_error = Error string | NonError

text \<open>
  Extracts \<open>error instanceof Error ? error.message : 'Unknown error'\<close>.
\<close>

fun errorMessage :: "js_error \<Rightarrow> string" where
  "errorMessage (Error m) = m"
| "errorMessage NonError = ''Unknown error''"

text \<open>
  A JavaScript number as far as the source needs it: \<open>parseInt\<close> yields an integer or
  \<open>NaN\<close>, and \<open>Date.now() / 1000\<close> a fraction (rounding of the double is left out).
\<close>

datatype number = NaN | Num rat

type_synonym buffer = "8 word list"

text \<open>A \<open>Date\<close> object: milliseconds since the epoch, or an invalid date.\<close>

datatype jsdate = Date int | InvalidDate

text \<open>
  Untyped values: what \<open>cvToJSON\<close> returns (\<open>any\<close>), the \<open>result\<close> sub-document of a cache
  entry as it is read back, and the object literals handed to \<open>res.json\<close>.
\<close>

datatype json =
    JUndefined
  | JNull
  | JBool bool
  | JNum number
  | JStr string
  | JBuffer buffer
  | JDate jsdate
  | JArr "json list"
  | JObj "(string \<times> json) list"

text \<open>
  Property read \<open>v.k\<close> for the keys the source reads (none of them is a built-in property
  of a primitive, a buffer, a date or an array): a \<open>TypeError\<close> on \<open>undefined\<close> and
  \<open>null\<close>, the stored value on an object that has the key, \<open>undefined\<close> otherwise.
\<close>

fun getProp :: "json \<Rightarrow> string \<Rightarrow> js_error + json" where
  "getProp JUndefined k = Inl (Error ''Cannot read properties of undefined'')"
| "getProp JNull k = Inl (Error ''Cannot read properties of null'')"
| "getProp (JObj kvs) k = Inr (case map_of kvs k of None \<Rightarrow> JUndefined | Some v \<Rightarrow> v)"
| "getProp v k = Inr JUndefined"

text \<open>JavaScript truthiness (\<open>if (v)\<close>, \<open>!v\<close>, \<open>a && b\<close>, \<open>a || b\<close>).\<close>

fun truthy :: "json \<Rightarrow> bool" where
  "truthy JUndefined = False"
| "truthy JNull = False"
| "truthy (JBool b) = b"
| "truthy (JNum NaN) = False"
| "truthy (JNum (Num r)) = (r \<noteq> 0)"
| "truthy (JStr s) = (s \<noteq> [])"
| "truthy v = True"

definition orElse :: "json \<Rightarrow> json \<Rightarrow> json" where
  "orElse a b = (if truthy a then a else b)"

text \<open>Optional fields of typed documents, seen as untyped values.\<close>

fun optStr :: "string option \<Rightarrow> json" where
  "optStr None = JUndefined"
| "optStr (Some s) = JStr s"

fun optInt :: "int option \<Rightarrow> json" where
  "optInt None = JUndefined"
| "optInt (Some n) = JNum (Num (of_int n))"

fun optDate :: "int option \<Rightarrow> json" where
  "optDate None = JUndefined"
| "optDate (Some t) = JDate (Date t)"

text \<open>
  \<open>toUpperCase\<close> and \<open>toLowerCase\<close> on the ASCII letters. The schemas declare
  \<open>contentHash\<close> with \<open>lowercase: true\<close> and \<open>authorWallet\<close> and \<open>currentBnsOwner\<close> with
  \<open>uppercase: true\<close>: the store applies these setters to the values it writes and to
  the values of a filter, and the model applies them at the same places.
\<close>

definition toUpperCase :: "string \<Rightarrow> string" where
  "toUpperCase s =
     map (\<lambda>c. let n = (of_char c :: nat) in
               if 97 \<le> n \<and> n \<le> 122 then char_of (n - 32) else c) s"

definition toLowerCase :: "string \<Rightarrow> string" where
  "toLowerCase s =
     map (\<lambda>c. let n = (of_char c :: nat) in
               if 65 \<le> n \<and> n \<le> 90 then char_of (n + 32) else c) s"

text \<open>
  \<open>new Date(n)\<close> for a number: invalid for \<open>NaN\<close> and beyond 8.64e15 ms, else the time
  value truncated towards zero.
\<close>

fun newDate :: "number \<Rightarrow> jsdate" where
  "newDate NaN = InvalidDate"
| "newDate (Num r) =
     (if \<bar>r\<bar> > 8640000000000000 then InvalidDate
      else Date (if r < 0 then - \<lfloor>- r\<rfloor> else \<lfloor>r\<rfloor>))"

fun numGreater :: "number \<Rightarrow> rat \<Rightarrow> bool" where
  "numGreater NaN b = False"
| "numGreater (Num a) b = (a > b)"

fun numTimes :: "number \<Rightarrow> rat \<Rightarrow> number" where
  "numTimes NaN b = NaN"
| "numTimes (Num a) b = Num (a * b)"

section \<open>Content Hasher (\<open>HashService\<close>)\<close>

text \<open>
  A JavaScript string is a sequence of UTF-16 code units. \<open>String.prototype.trim\<close> and the
  regular expression class \<open>\s\<close> use the same set: white space and line terminators.
\<close>

type_synonym jsstring = "16 word list"

definition isWhiteSpace :: "16 word \<Rightarrow> bool" where
  "isWhiteSpace c \<longleftrightarrow>
     c = 0x9 \<or> c = 0xA \<or> c = 0xB \<or> c = 0xC \<or> c = 0xD \<or> c = 0x20 \<or> c = 0xA0 \<or>
     c = 0x1680 \<or> (0x2000 \<le> c \<and> c \<le> 0x200A) \<or> c = 0x2028 \<or> c = 0x2029 \<or>
     c = 0x202F \<or> c = 0x205F \<or> c = 0x3000 \<or> c = 0xFEFF"

text \<open>\<open>content.trim()\<close>\<close>

definition trim :: "jsstring \<Rightarrow> jsstring" where
  "trim s = rev (dropWhile isWhiteSpace (rev (dropWhile isWhiteSpace s)))"

text \<open>\<open>.replace(/\s+/g, ' ')\<close>: every maximal run of white space becomes one space.\<close>

function collapseWhitespace :: "jsstring \<Rightarrow> jsstring" where
  "collapseWhitespace [] = []"
| "collapseWhitespace (c # cs) =
     (if isWhiteSpace c then 0x20 # collapseWhitespace (dropWhile isWhiteSpace cs)
      else c # collapseWhitespace cs)"
  by pat_completeness auto
termination
  by (relation "measure length") (auto simp: length_dropWhile_le less_Suc_eq_le)

text \<open>
  \<open>const cleanContent = content.trim().replace(/\s+/g, ' ')\<close>, the normalisation the spec
  calls \<open>trim_collapse\<close>.
\<close>

definition cleanContent :: "jsstring \<Rightarrow> jsstring" where
  "cleanContent content = collapseWhitespace (trim content)"

text \<open>A string with no white space at either end (used in the proofs only).\<close>

definition edgeClean :: "jsstring \<Rightarrow> bool" where
  "edgeClean s \<longleftrightarrow> (s = [] \<or> (\<not> isWhiteSpace (hd s) \<and> \<not> isWhiteSpace (last s)))"

text \<open>
  \<open>generateContentHash\<close>. The digest \<open>crypto.createHash('sha256').update(s, 'utf8').digest()\<close>
  belongs to Node and is a parameter \<open>sha256\<close> of the model.
\<close>

definition generateContentHash :: "(jsstring \<Rightarrow> buffer) \<Rightarrow> jsstring \<Rightarrow> buffer" where
  "generateContentHash sha256 content = sha256 (cleanContent content)"

text \<open>\<open>buffer.toString('hex')\<close>\<close>

definition hexDigit :: "nat \<Rightarrow> char" where
  "hexDigit n = ''0123456789abcdef'' ! (n mod 16)"

fun toHex :: "buffer \<Rightarrow> string" where
  "toHex [] = []"
| "toHex (b # bs) = hexDigit (unat b div 16) # hexDigit (unat b mod 16) # toHex bs"

definition generateContentHashHex :: "(jsstring \<Rightarrow> buffer) \<Rightarrow> jsstring \<Rightarrow> string" where
  "generateContentHashHex sha256 content = toHex (generateContentHash sha256 content)"

text \<open>
  \<open>Buffer.from(cleanHex, 'hex')\<close> decodes pairs of hexadecimal digits and stops at the first
  pair that is not one (a trailing single character is dropped).
\<close>

definition hexValue :: "char \<Rightarrow> nat option" where
  "hexValue c =
     (let n = (of_char c :: nat) in
      if 48 \<le> n \<and> n \<le> 57 then Some (n - 48)
      else if 97 \<le> n \<and> n \<le> 102 then Some (n - 87)
      else if 65 \<le> n \<and> n \<le> 70 then Some (n - 55)
      else None)"

fun bufferFromHex :: "string \<Rightarrow> buffer" where
  "bufferFromHex (a # b # rest) =
     (case (hexValue a, hexValue b) of
        (Some x, Some y) \<Rightarrow> of_nat (16 * x + y) # bufferFromHex rest
      | _ \<Rightarrow> [])"
| "bufferFromHex s = []"

text \<open>\<open>hexToBuffer\<close>: an optional \<open>0x\<close> prefix is removed first.\<close>

definition hexToBuffer :: "string \<Rightarrow> buffer" where
  "hexToBuffer hexString =
     bufferFromHex (if take 2 hexString = ''0x'' then drop 2 hexString else hexString)"

section \<open>Data model\<close>

datatype network = Mainnet | Testnet

record ContractConfig =
  contractAddress :: string
  contractName :: string
  network :: network

text \<open>
  The options of one \<open>fetchCallReadOnlyFunction\<close> call. The source always passes the
  contract address as \<open>senderAddress\<close> too; every argument it passes is a \<open>bufferCV\<close>.
\<close>

datatype call =
  ReadOnlyCall (callAddress: string) (callName: string) (callFunction: string)
    (callArgs: "buffer list") (callNetwork: network)

text \<open>\<open>TweetRegistration\<close>, what the Contract Gateway returns for a hash it found.\<close>

record TweetRegistration =
  hash :: buffer
  author :: json
  bnsName :: json
  blockHeight :: number
  timestamp :: number
  registrationId :: number

datatype chain_status = Pending | Confirmed | Failed

datatype bns_status = Valid | Transferred | NoLongerOwned

text \<open>The string of the schema's enum: \<open>'valid' | 'transferred' | 'no-longer-owned'\<close>.\<close>

fun bnsStatusString :: "bns_status \<Rightarrow> string" where
  "bnsStatusString Valid = ''valid''"
| "bnsStatusString Transferred = ''transferred''"
| "bnsStatusString NoLongerOwned = ''no-longer-owned''"

record IBlockchainData =
  txId :: "string option"
  registrationId :: "string option"
  status :: chain_status
  blockHeight :: "int option"
  timestamp :: "int option"

record IContentData =
  url :: "string option"
  twitterHandle :: "string option"

record IAnalytics =
  views :: nat
  verifications :: nat
  lastViewed :: "int option"
  lastVerified :: "int option"

record IIPFSData =
  cid :: "string option"
  gateway :: "string option"
  pinned :: bool
  uploadedAt :: "int option"

text \<open>
  A document of the \<open>registrations\<close> collection (\<open>IRegistration\<close>), with the fields the
  resolver, the validator and the registration endpoints read or write. Dates are
  milliseconds since the epoch; \<open>contentHash\<close> is stored in lower case and \<open>authorWallet\<close>
  in upper case.
\<close>

record IRegistration =
  ident :: nat
  contentHash :: string
  authorWallet :: string
  bnsName :: "string option"
  lastBnsValidation :: "int option"
  bnsStatus :: "bns_status option"
  currentBnsOwner :: "string option"
  bnsTransferredAt :: "int option"
  content :: IContentData
  blockchain :: IBlockchainData
  ipfs :: IIPFSData
  analytics :: IAnalytics
  createdAt :: int

text \<open>
  A document of the \<open>verification_cache\<close> collection. The \<open>result\<close> sub-document is kept
  untyped, because the resolver itself checks its shape before it trusts it.
\<close>

record IVerificationCache =
  result :: json
  expiresAt :: int
  hits :: nat
  lastAccessed :: int

text \<open>
  The mutable world: the two collections (the cache is keyed by its unique \<open>contentHash\<close>,
  which the store keeps in lower case),
  and, for the record, the sequence of read-only ledger calls and of name-registry
  lookups made so far. Console output is not part of the model.
\<close>

record world =
  verificationCache :: "string \<rightharpoonup> IVerificationCache"
  registrations :: "IRegistration list"
  ledgerCalls :: "call list"
  registryCalls :: "string list"

text \<open>
  What \<open>fetch\<close> on the name registry resolves to: \<open>response.ok\<close>, and what
  \<open>await response.json() as { names?: string[] }\<close> gives (it may throw; \<open>None\<close> is a body
  without \<open>names\<close>).
\<close>

datatype http_response = HttpResponse (ok: bool) (responseJson: "js_error + string list option")

text \<open>
  Everything outside the repository: the ledger seen through the SDK
  (\<open>fetchCallReadOnlyFunction\<close>, \<open>cvToJSON\<close>), the built-ins \<open>parseInt\<close>, \<open>Date.now\<close> and
  \<open>Date.prototype.toISOString\<close> (on a valid date), the SHA-256 digest of the UTF-8 bytes
  of a string, and the name registry. One request sees one clock value.
\<close>

record 'cv env =
  fetchCallReadOnlyFunction :: "call \<Rightarrow> js_error + 'cv"
  cvToJSON :: "'cv \<Rightarrow> js_error + json"
  parseInt :: "json \<Rightarrow> number"
  dateNow :: int
  isoString :: "int \<Rightarrow> string"
  sha256 :: "jsstring \<Rightarrow> buffer"
  fetchNames :: "string \<Rightarrow> js_error + http_response"

subsection \<open>Asynchronous code as state passing with exceptions\<close>

type_synonym 'a io = "world \<Rightarrow> (js_error + 'a) \<times> world"

definition io_return :: "'a \<Rightarrow> 'a io" where
  "io_return x = (\<lambda>w. (Inr x, w))"

definition io_throw :: "js_error \<Rightarrow> 'a io" where
  "io_throw e = (\<lambda>w. (Inl e, w))"

definition io_lift :: "js_error + 'a \<Rightarrow> 'a io" where
  "io_lift r = (\<lambda>w. (r, w))"

definition io_bind :: "'a io \<Rightarrow> ('a \<Rightarrow> 'b io) \<Rightarrow> 'b io" where
  "io_bind m f = (\<lambda>w. case m w of (Inl e, w') \<Rightarrow> (Inl e, w') | (Inr x, w') \<Rightarrow> f x w')"

text \<open>\<open>try { m } catch (e) { h e }\<close>\<close>

definition io_catch :: "'a io \<Rightarrow> (js_error \<Rightarrow> 'a io) \<Rightarrow> 'a io" where
  "io_catch m h = (\<lambda>w. case m w of (Inl e, w') \<Rightarrow> h e w' | (Inr x, w') \<Rightarrow> (Inr x, w'))"

definition io_modify :: "(world \<Rightarrow> world) \<Rightarrow> unit io" where
  "io_modify f = (\<lambda>w. (Inr (), f w))"

definition io_read :: "(world \<Rightarrow> 'a) \<Rightarrow> 'a io" where
  "io_read f = (\<lambda>w. (Inr (f w), w))"

text \<open>\<open>toISOString\<close> throws a \<open>RangeError\<close> on an invalid date.\<close>

fun toISOString :: "'cv env \<Rightarrow> jsdate \<Rightarrow> js_error + json" where
  "toISOString env (Date t) = Inr (JStr (isoString env t))"
| "toISOString env InvalidDate = Inl (Error ''Invalid time value'')"

text \<open>Sequencing of pure computations that may throw.\<close>

definition r_bind :: "js_error + 'a \<Rightarrow> ('a \<Rightarrow> js_error + 'b) \<Rightarrow> js_error + 'b" where
  "r_bind r f = (case r of Inl e \<Rightarrow> Inl e | Inr x \<Rightarrow> f x)"

section \<open>Contract Gateway (\<open>BlockchainService\<close>)\<close>

definition contractAddressV2 :: string where
  "contractAddressV2 = ''SPVQ61FEWR6M4HVAT3BNE07D4BNW6A1C2ACCNQ6F''"

definition contractNameV2 :: string where
  "contractNameV2 = ''truthchain_v2''"

definition contractAddressV1 :: string where
  "contractAddressV1 = ''SP1S7KX8TVSAWJ8CVJZQSFERBQ8BNCDXYFHXT21Z9''"

definition contractNameV1 :: string where
  "contractNameV1 = ''truthchain_v1''"

text \<open>
  \<open>await fetchCallReadOnlyFunction({...})\<close>: the SDK's answer (a rejection is \<open>Inl\<close>), and
  the call is appended to the world's record of ledger calls.
\<close>

definition callReadOnly :: "'cv env \<Rightarrow> call \<Rightarrow> 'cv io" where
  "callReadOnly env c =
     (\<lambda>w. (fetchCallReadOnlyFunction env c, w\<lparr>ledgerCalls := ledgerCalls w @ [c]\<rparr>))"

text \<open>\<open>hashExistsOnContract\<close>: \<open>jsonResult.value === true\<close>, and \<open>false\<close> from the handler.\<close>

definition hashExistsOnContract ::
  "'cv env \<Rightarrow> ContractConfig \<Rightarrow> string \<Rightarrow> string \<Rightarrow> buffer \<Rightarrow> bool io" where
  "hashExistsOnContract env config address name hashBytes =
     io_catch
       (io_bind
          (callReadOnly env
             (ReadOnlyCall address name ''hash-exists'' [hashBytes] (network config)))
          (\<lambda>result.
        io_bind (io_lift (cvToJSON env result)) (\<lambda>jsonResult.
        io_bind (io_lift (getProp jsonResult ''value'')) (\<lambda>v.
        io_return (v = JBool True)))))
       (\<lambda>error. io_return False)"

definition hashExists :: "'cv env \<Rightarrow> ContractConfig \<Rightarrow> buffer \<Rightarrow> bool io" where
  "hashExists env config hashBytes =
     hashExistsOnContract env config (contractAddress config) (contractName config) hashBytes"

text \<open>
  The optional \<open>bns-name\<close> of the tuple:
  \<open>if (data['bns-name'] && data['bns-name'].type === 'some') bnsName = data['bns-name'].value.value\<close>.
\<close>

definition readBnsName :: "json \<Rightarrow> js_error + json" where
  "readBnsName data =
     r_bind (getProp data ''bns-name'') (\<lambda>b.
       if truthy b then
         r_bind (getProp b ''type'') (\<lambda>t.
           if t = JStr ''some'' then
             r_bind (getProp b ''value'') (\<lambda>bv. getProp bv ''value'')
           else Inr JUndefined)
       else Inr JUndefined)"

text \<open>
  The body of the inner \<open>try\<close> of \<open>verifyOnContract\<close> after the call: \<open>Some\<close> is the record
  returned from inside the \<open>if (jsonResult.success && jsonResult.value)\<close>, \<open>None\<close> is
  falling out of the \<open>if\<close>, \<open>Inl\<close> a \<open>TypeError\<close> of a property read.
\<close>

definition parseVerifyContent ::
  "'cv env \<Rightarrow> buffer \<Rightarrow> json \<Rightarrow> js_error + TweetRegistration option" where
  "parseVerifyContent env hashBytes jsonResult =
     r_bind (getProp jsonResult ''success'') (\<lambda>success.
     if \<not> truthy success then Inr None
     else
       r_bind (getProp jsonResult ''value'') (\<lambda>v.
       if \<not> truthy v then Inr None
       else
         r_bind (getProp v ''value'') (\<lambda>data.
         r_bind (readBnsName data) (\<lambda>bnsName.
         r_bind (getProp data ''author'') (\<lambda>a.
         r_bind (getProp a ''value'') (\<lambda>author.
         r_bind (getProp data ''block-height'') (\<lambda>bh.
         r_bind (getProp bh ''value'') (\<lambda>blockHeight.
         r_bind (getProp data ''time-stamp'') (\<lambda>ts.
         r_bind (getProp ts ''value'') (\<lambda>timestamp.
         r_bind (getProp data ''registration-id'') (\<lambda>ri.
         r_bind (getProp ri ''value'') (\<lambda>registrationId.
         Inr (Some \<lparr>hash = hashBytes,
                    author = author,
                    TweetRegistration.bnsName = bnsName,
                    TweetRegistration.blockHeight = parseInt env blockHeight,
                    TweetRegistration.timestamp = parseInt env timestamp,
                    TweetRegistration.registrationId = parseInt env registrationId\<rparr>)
         ))))))))))))"

text \<open>The fallback record: the hash exists but its details could not be read.\<close>

definition basicInfo :: "'cv env \<Rightarrow> buffer \<Rightarrow> TweetRegistration" where
  "basicInfo env hashBytes =
     \<lparr>hash = hashBytes,
      author = JStr ''unknown'',
      TweetRegistration.bnsName = JUndefined,
      TweetRegistration.blockHeight = Num 0,
      TweetRegistration.timestamp = Num (of_int (dateNow env) / 1000),
      TweetRegistration.registrationId = Num 0\<rparr>"

text \<open>The inner \<open>try { ... } catch (detailError) { }\<close> of \<open>verifyOnContract\<close>.\<close>

definition fetchDetails ::
  "'cv env \<Rightarrow> ContractConfig \<Rightarrow> string \<Rightarrow> string \<Rightarrow> buffer \<Rightarrow> TweetRegistration option io" where
  "fetchDetails env config address name hashBytes =
     io_bind
       (callReadOnly env
          (ReadOnlyCall address name ''verify-content'' [hashBytes] (network config)))
       (\<lambda>result.
     io_bind (io_lift (cvToJSON env result)) (\<lambda>jsonResult.
     io_lift (parseVerifyContent env hashBytes jsonResult)))"

text \<open>\<open>verifyOnContract\<close>; \<open>None\<close> is \<open>null\<close>.\<close>

definition verifyOnContract ::
  "'cv env \<Rightarrow> ContractConfig \<Rightarrow> string \<Rightarrow> string \<Rightarrow> buffer \<Rightarrow> TweetRegistration option io" where
  "verifyOnContract env config address name hashBytes =
     io_catch
       (io_bind (hashExistsOnContract env config address name hashBytes) (\<lambda>exists.
        if \<not> exists then io_return None
        else
          io_bind
            (io_catch (fetchDetails env config address name hashBytes)
               (\<lambda>detailError. io_return None))
            (\<lambda>details.
               case details of
                 Some registration \<Rightarrow> io_return (Some registration)
               | None \<Rightarrow> io_return (Some (basicInfo env hashBytes)))))
       (\<lambda>error. io_return None)"

text \<open>
  \<open>BlockchainService.verifyTweet\<close>: the configured contract first, then, on mainnet
  only, the v2 and the v1 contract.
\<close>

definition BlockchainService_verifyTweet ::
  "'cv env \<Rightarrow> ContractConfig \<Rightarrow> buffer \<Rightarrow> TweetRegistration option io" where
  "BlockchainService_verifyTweet env config hashBytes =
     io_catch
       (io_bind
          (verifyOnContract env config (contractAddress config) (contractName config)
             hashBytes)
          (\<lambda>v3Result.
        if v3Result \<noteq> None then io_return v3Result
        else if network config = Mainnet then
          io_bind
            (verifyOnContract env config contractAddressV2 contractNameV2 hashBytes)
            (\<lambda>v2Result.
          if v2Result \<noteq> None then io_return v2Result
          else
            io_bind
              (verifyOnContract env config contractAddressV1 contractNameV1 hashBytes)
              (\<lambda>v1Result.
            if v1Result \<noteq> None then io_return v1Result
            else io_return None))
        else io_return None))
       (\<lambda>error. io_return None)"

text \<open>\<open>getContractStats\<close>: the decoded value, or \<open>null\<close> from the handler.\<close>

definition getContractStats :: "'cv env \<Rightarrow> ContractConfig \<Rightarrow> json io" where
  "getContractStats env config =
     io_catch
       (io_bind
          (callReadOnly env
             (ReadOnlyCall (contractAddress config) (contractName config)
                ''get-contract-stats'' [] (network config)))
          (\<lambda>result. io_lift (cvToJSON env result)))
       (\<lambda>error. io_return JNull)"

section \<open>Verification Resolver (\<open>VerificationController\<close>)\<close>

text \<open>What \<open>res.status(c).json(b)\<close> sends; \<open>res.json(b)\<close> sends it with status 200.\<close>

record response =
  statusCode :: nat
  body :: json

definition res_json :: "json \<Rightarrow> response" where
  "res_json b = \<lparr>statusCode = 200, body = b\<rparr>"

definition res_status_json :: "nat \<Rightarrow> json \<Rightarrow> response" where
  "res_status_json c b = \<lparr>statusCode = c, body = b\<rparr>"

text \<open>The body of \<open>POST /verify\<close>: \<open>{ tweetContent?: string, hash?: string }\<close>.\<close>

record VerifyTweetRequest =
  tweetContent :: "jsstring option"
  hash :: "string option"

text \<open>\<open>!s\<close> for an optional string: absent or empty.\<close>

fun present :: "'a list option \<Rightarrow> bool" where
  "present None = False"
| "present (Some s) = (s \<noteq> [])"

text \<open>
  The store operations the resolver uses. \<open>findOneAndUpdate\<close> and \<open>findByIdAndUpdate\<close>
  change the first document that matches; \<open>upsert\<close> on the cache replaces \<open>result\<close>,
  \<open>expiresAt\<close> and \<open>lastAccessed\<close> and increments \<open>hits\<close> (1 on insertion). A filter on
  \<open>contentHash\<close> is lower-cased by the store, on both collections.
\<close>

fun updateFirst :: "('a \<Rightarrow> bool) \<Rightarrow> ('a \<Rightarrow> 'a) \<Rightarrow> 'a list \<Rightarrow> 'a list" where
  "updateFirst P f [] = []"
| "updateFirst P f (x # xs) = (if P x then f x # xs else x # updateFirst P f xs)"

definition countVerification :: "int \<Rightarrow> IRegistration \<Rightarrow> IRegistration" where
  "countVerification now r =
     r\<lparr>analytics := (analytics r)\<lparr>verifications := verifications (analytics r) + 1,
                                    lastVerified := Some now\<rparr>\<rparr>"

definition findLiveCache :: "'cv env \<Rightarrow> string \<Rightarrow> world \<Rightarrow> IVerificationCache option" where
  "findLiveCache env hashHex w =
     (case verificationCache w (toLowerCase hashHex) of
        None \<Rightarrow> None
      | Some c \<Rightarrow> if expiresAt c > dateNow env then Some c else None)"

definition deleteCache :: "string \<Rightarrow> world \<Rightarrow> world" where
  "deleteCache hashHex w =
     w\<lparr>verificationCache := (verificationCache w)(toLowerCase hashHex := None)\<rparr>"

text \<open>
  The \<open>result\<close> sub-document as the store keeps it: \<open>authorWallet\<close> is declared with
  \<open>uppercase: true\<close> (a value that is not a string is left as it is here).
\<close>

fun castAuthorWallet :: "string \<times> json \<Rightarrow> string \<times> json" where
  "castAuthorWallet (k, JStr s) = (if k = ''authorWallet'' then (k, JStr (toUpperCase s)) else (k, JStr s))"
| "castAuthorWallet (k, v) = (k, v)"

fun castResult :: "json \<Rightarrow> json" where
  "castResult (JObj kvs) = JObj (map castAuthorWallet kvs)"
| "castResult v = v"

definition upsertCache :: "'cv env \<Rightarrow> string \<Rightarrow> json \<Rightarrow> world \<Rightarrow> world" where
  "upsertCache env hashHex res w =
     w\<lparr>verificationCache := (verificationCache w)(toLowerCase hashHex \<mapsto>
          \<lparr>result = castResult res,
           expiresAt = dateNow env + 3600000,
           hits = (case verificationCache w (toLowerCase hashHex) of
                     None \<Rightarrow> 1 | Some c \<Rightarrow> hits c + 1),
           lastAccessed = dateNow env\<rparr>)\<rparr>"

definition isBoolean :: "json \<Rightarrow> bool" where
  "isBoolean v = (case v of JBool b \<Rightarrow> True | _ \<Rightarrow> False)"

text \<open>\<open>d?.toISOString()\<close> on an untyped value.\<close>

fun optionalISOString :: "'cv env \<Rightarrow> json \<Rightarrow> js_error + json" where
  "optionalISOString env JUndefined = Inr JUndefined"
| "optionalISOString env JNull = Inr JUndefined"
| "optionalISOString env (JDate d) = toISOString env d"
| "optionalISOString env v = Inl (Error ''toISOString is not a function'')"

text \<open>
  Step 1 of \<open>verifyTweet\<close>, the cache lookup. \<open>Some\<close> is the response returned from the
  positive branch; \<open>None\<close> is falling through to the next step.
\<close>

definition cacheStep :: "'cv env \<Rightarrow> string \<Rightarrow> response option io" where
  "cacheStep env hashHex =
     io_bind (io_read (findLiveCache env hashHex)) (\<lambda>cached.
     case cached of
       None \<Rightarrow> io_return None
     | Some c \<Rightarrow>
         io_bind (io_lift (if truthy (result c) then getProp (result c) ''isRegistered''
                           else Inr JUndefined)) (\<lambda>isRegistered.
         if \<not> truthy (result c) \<or> \<not> isBoolean isRegistered then
           io_bind (io_modify (deleteCache hashHex)) (\<lambda>_. io_return None)
         else if truthy isRegistered then
           io_bind (io_modify (\<lambda>w. w\<lparr>registrations :=
                      updateFirst (\<lambda>r. contentHash r = toLowerCase hashHex)
                        (countVerification (dateNow env)) (registrations w)\<rparr>)) (\<lambda>_.
           io_bind (io_lift (getProp (result c) ''authorWallet'')) (\<lambda>authorWallet.
           io_bind (io_lift (getProp (result c) ''bnsName'')) (\<lambda>bnsName.
           io_bind (io_lift (getProp (result c) ''bnsStatus'')) (\<lambda>bnsStatus.
           io_bind (io_lift (getProp (result c) ''registrationDate'')) (\<lambda>registrationDate.
           io_bind (io_lift (optionalISOString env registrationDate)) (\<lambda>registeredAt.
           io_bind (io_lift (getProp (result c) ''blockHeight'')) (\<lambda>blockHeight.
           io_bind (io_lift (getProp (result c) ''txId'')) (\<lambda>txId.
           io_return (Some (res_json (JObj
             [(''success'', JBool True),
              (''verified'', JBool True),
              (''message'', JStr ''Content verified (cached)''),
              (''data'', JObj
                [(''hash'', JStr hashHex),
                 (''author'', authorWallet),
                 (''bnsName'', bnsName),
                 (''bnsStatus'', orElse bnsStatus (JStr ''valid'')),
                 (''registeredAt'', registeredAt),
                 (''blockHeight'', blockHeight),
                 (''txId'', txId)])])))))))))))
         else
           io_bind (io_modify (deleteCache hashHex)) (\<lambda>_. io_return None)))"

text \<open>
  \<open>Registration.findOne({ contentHash, 'blockchain.status': { $in: ['confirmed', 'pending'] } })\<close>
\<close>

definition findRegistration :: "string \<Rightarrow> world \<Rightarrow> IRegistration option" where
  "findRegistration hashHex w =
     find (\<lambda>r. contentHash r = toLowerCase hashHex \<and>
                (status (blockchain r) = Confirmed \<or> status (blockchain r) = Pending))
       (registrations w)"

text \<open>\<open>registration.bnsStatus || 'valid'\<close>\<close>

definition bnsStatusOrValid :: "bns_status option \<Rightarrow> json" where
  "bnsStatusOrValid s = JStr (bnsStatusString (case s of None \<Rightarrow> Valid | Some v \<Rightarrow> v))"

text \<open>The \<open>data\<close> object of the response built from a persisted registration.\<close>

definition registrationData :: "'cv env \<Rightarrow> string \<Rightarrow> IRegistration \<Rightarrow> json" where
  "registrationData env hashHex registration =
     JObj
       [(''hash'', JStr hashHex),
        (''author'', JStr (authorWallet registration)),
        (''bnsName'', optStr (IRegistration.bnsName registration)),
        (''bnsStatus'', bnsStatusOrValid (bnsStatus registration)),
        (''lastBnsValidation'', optDate (lastBnsValidation registration)),
        (''registeredAt'', JStr (isoString env
            (case IBlockchainData.timestamp (blockchain registration) of
               Some t \<Rightarrow> t | None \<Rightarrow> createdAt registration))),
        (''blockHeight'', orElse (optInt (IBlockchainData.blockHeight (blockchain registration)))
            (JNum (Num 0))),
        (''registrationId'',
            orElse (optStr (IBlockchainData.registrationId (blockchain registration)))
              (JNum (Num 0))),
        (''txId'', orElse (optStr (txId (blockchain registration))) (JStr [])),
        (''tweetUrl'', optStr (url (content registration))),
        (''twitterHandle'', optStr (twitterHandle (content registration)))]"

text \<open>The positive \<open>result\<close> written to the cache from a persisted registration.\<close>

definition registrationCacheResult :: "'cv env \<Rightarrow> IRegistration \<Rightarrow> json" where
  "registrationCacheResult env registration =
     JObj
       [(''isRegistered'', JBool True),
        (''authorWallet'', JStr (authorWallet registration)),
        (''bnsName'', optStr (IRegistration.bnsName registration)),
        (''bnsStatus'', bnsStatusOrValid (bnsStatus registration)),
        (''blockHeight'', orElse (optInt (IBlockchainData.blockHeight (blockchain registration)))
            (JNum (Num 0))),
        (''registrationDate'', JDate (Date
            (case IBlockchainData.timestamp (blockchain registration) of
               Some t \<Rightarrow> t | None \<Rightarrow> dateNow env))),
        (''txId'', orElse (optStr (txId (blockchain registration))) (JStr []))]"

text \<open>Step 2 of \<open>verifyTweet\<close>, the persisted-record lookup.\<close>

definition storeStep :: "'cv env \<Rightarrow> string \<Rightarrow> response option io" where
  "storeStep env hashHex =
     io_bind (io_read (findRegistration hashHex)) (\<lambda>found.
     case found of
       None \<Rightarrow> io_return None
     | Some registration \<Rightarrow>
         io_bind (io_modify (upsertCache env hashHex (registrationCacheResult env registration)))
           (\<lambda>_.
         io_bind (io_modify (\<lambda>w. w\<lparr>registrations :=
                    updateFirst (\<lambda>r. ident r = ident registration)
                      (countVerification (dateNow env)) (registrations w)\<rparr>)) (\<lambda>_.
         io_return (Some (res_json (JObj
           [(''success'', JBool True),
            (''verified'', JBool True),
            (''message'', JStr ''Content verified successfully''),
            (''data'', registrationData env hashHex registration)]))))))"

text \<open>
  \<open>hashHex\<close> of a request: the hex digest of the content when content is given, else the
  hash as the client sent it.
\<close>

definition requestHashHex :: "'cv env \<Rightarrow> VerifyTweetRequest \<Rightarrow> string option" where
  "requestHashHex env req =
     (if present (tweetContent req)
      then map_option (generateContentHashHex (sha256 env)) (tweetContent req)
      else VerifyTweetRequest.hash req)"

text \<open>
  \<open>tweetContent ? HashService.generateContentHash(tweetContent) : HashService.hexToBuffer(hash!)\<close>;
  \<open>hexToBuffer(undefined)\<close> would be a \<open>TypeError\<close>.
\<close>

definition requestHashBytes :: "'cv env \<Rightarrow> VerifyTweetRequest \<Rightarrow> js_error + buffer" where
  "requestHashBytes env req =
     (case tweetContent req of
        Some c \<Rightarrow>
          if c \<noteq> [] then Inr (generateContentHash (sha256 env) c)
          else (case VerifyTweetRequest.hash req of
                  Some h \<Rightarrow> Inr (hexToBuffer h)
                | None \<Rightarrow> Inl (Error ''Cannot read properties of undefined''))
      | None \<Rightarrow>
          (case VerifyTweetRequest.hash req of
             Some h \<Rightarrow> Inr (hexToBuffer h)
           | None \<Rightarrow> Inl (Error ''Cannot read properties of undefined'')))"

text \<open>
  \<open>new Date(verification.timestamp > 1000000000000 ? verification.timestamp
  : verification.timestamp * 1000)\<close>
\<close>

definition registrationDateOf :: "TweetRegistration \<Rightarrow> jsdate" where
  "registrationDateOf verification =
     newDate (if numGreater (TweetRegistration.timestamp verification) 1000000000000
              then TweetRegistration.timestamp verification
              else numTimes (TweetRegistration.timestamp verification) 1000)"

text \<open>Step 3 of \<open>verifyTweet\<close>, the chain fallback.\<close>

definition chainStep ::
  "'cv env \<Rightarrow> ContractConfig \<Rightarrow> VerifyTweetRequest \<Rightarrow> string \<Rightarrow> response io" where
  "chainStep env config req hashHex =
     io_bind (io_lift (requestHashBytes env req)) (\<lambda>hashBytes.
     io_bind (BlockchainService_verifyTweet env config hashBytes) (\<lambda>found.
     case found of
       None \<Rightarrow>
         io_bind (io_modify (upsertCache env hashHex (JObj [(''isRegistered'', JBool False)])))
           (\<lambda>_.
         io_return (res_json (JObj
           [(''success'', JBool True),
            (''verified'', JBool False),
            (''message'', JStr ''Content not found on blockchain'')])))
     | Some verification \<Rightarrow>
         io_bind (io_modify (upsertCache env hashHex (JObj
           [(''isRegistered'', JBool True),
            (''authorWallet'', author verification),
            (''bnsName'', TweetRegistration.bnsName verification),
            (''bnsStatus'', JStr ''valid''),
            (''blockHeight'', JNum (TweetRegistration.blockHeight verification)),
            (''registrationDate'', JDate (registrationDateOf verification))]))) (\<lambda>_.
         io_bind (io_lift (toISOString env (registrationDateOf verification))) (\<lambda>registeredAt.
         io_return (res_json (JObj
           [(''success'', JBool True),
            (''verified'', JBool True),
            (''message'', JStr ''Content verified successfully''),
            (''data'', JObj
              [(''hash'', JStr hashHex),
               (''author'', author verification),
               (''bnsName'', TweetRegistration.bnsName verification),
               (''bnsStatus'', JStr ''valid''),
               (''registeredAt'', registeredAt),
               (''blockHeight'', JNum (TweetRegistration.blockHeight verification)),
               (''registrationId'',
                  JNum (TweetRegistration.registrationId verification))])]))))))"

text \<open>
  \<open>VerificationController.verifyTweet\<close>, \<open>POST /verify\<close>. After the first check one of
  the two fields is present, so \<open>hashHex\<close> is defined.
\<close>

definition VerificationController_verifyTweet ::
  "'cv env \<Rightarrow> ContractConfig \<Rightarrow> VerifyTweetRequest \<Rightarrow> response io" where
  "VerificationController_verifyTweet env config req =
     io_catch
       (if \<not> present (tweetContent req) \<and> \<not> present (VerifyTweetRequest.hash req) then
          io_return (res_status_json 400 (JObj
            [(''success'', JBool False),
             (''verified'', JBool False),
             (''message'', JStr ''Either tweet content or hash is required''),
             (''error'', JStr ''Missing required fields'')]))
        else
          (case requestHashHex env req of
             None \<Rightarrow> io_throw (Error ''hashHex is undefined'')
           | Some hashHex \<Rightarrow>
               io_bind (cacheStep env hashHex) (\<lambda>fromCache.
               case fromCache of
                 Some r \<Rightarrow> io_return r
               | None \<Rightarrow>
                   io_bind (storeStep env hashHex) (\<lambda>fromStore.
                   case fromStore of
                     Some r \<Rightarrow> io_return r
                   | None \<Rightarrow> chainStep env config req hashHex))))
       (\<lambda>error.
          io_return (res_status_json 500 (JObj
            [(''success'', JBool False),
             (''verified'', JBool False),
             (''message'', JStr ''Error during verification''),
             (''error'', JStr (errorMessage error))])))"

text \<open>\<open>quickVerify\<close>, \<open>GET /verify/:hash\<close>.\<close>

definition quickVerify :: "'cv env \<Rightarrow> ContractConfig \<Rightarrow> string option \<Rightarrow> response io" where
  "quickVerify env config hashParam =
     io_catch
       (case hashParam of
          None \<Rightarrow>
            io_return (res_status_json 400 (JObj
              [(''success'', JBool False),
               (''verified'', JBool False),
               (''message'', JStr ''Hash parameter is required'')]))
        | Some h \<Rightarrow>
            if h = [] then
              io_return (res_status_json 400 (JObj
                [(''success'', JBool False),
                 (''verified'', JBool False),
                 (''message'', JStr ''Hash parameter is required'')]))
            else
              io_bind (hashExists env config (hexToBuffer h)) (\<lambda>exists.
              io_return (res_json (JObj
                [(''success'', JBool True),
                 (''verified'', JBool exists),
                 (''message'',
                    JStr (if exists then ''Content verified'' else ''Content not found'')),
                 (''data'', JObj [(''hash'', JStr h), (''exists'', JBool exists)])]))))
       (\<lambda>error.
          io_return (res_status_json 500 (JObj
            [(''success'', JBool False),
             (''verified'', JBool False),
             (''message'', JStr ''Error during quick verification''),
             (''error'', JStr (errorMessage error))])))"

subsection \<open>Batch verification\<close>

text \<open>
  The body is JSON that nothing validates, so a property that the source declares as an
  optional string may be missing, may hold a value that is not a string (\<open>null\<close>, a
  boolean, a number, or an object or array), or may hold a string.
\<close>

datatype non_string = NullValue | BoolValue bool | NumberValue number | ObjectValue

datatype 'a req_field = Absent | Other non_string | Given 'a

fun truthyOther :: "non_string \<Rightarrow> bool" where
  "truthyOther NullValue = False"
| "truthyOther (BoolValue b) = b"
| "truthyOther (NumberValue NaN) = False"
| "truthyOther (NumberValue (Num r)) = (r \<noteq> 0)"
| "truthyOther ObjectValue = True"

fun fieldTruthy :: "'a list req_field \<Rightarrow> bool" where
  "fieldTruthy Absent = False"
| "fieldTruthy (Other v) = truthyOther v"
| "fieldTruthy (Given s) = (s \<noteq> [])"

text \<open>
  One element of \<open>items\<close>, declared \<open>{ content?: string; hash?: string }\<close>: \<open>null\<close>, or
  a value with its \<open>content\<close> and its \<open>hash\<close> (an element that is a number, a boolean or
  a string has neither property). The \<open>items\<close> property itself is an array or not.
\<close>

datatype batch_item = NullItem | Item "jsstring req_field" "string req_field"

datatype items_field = NotAnArray | ItemArray "batch_item list"

text \<open>Decimal digits of a number, for the template string of the final message.\<close>

function natString :: "nat \<Rightarrow> string" where
  "natString n =
     (if n < 10 then [''0123456789'' ! n]
      else natString (n div 10) @ [''0123456789'' ! (n mod 10)])"
  by pat_completeness auto
termination
  by (relation "measure id") auto

text \<open>
  The \<open>try\<close> block of the loop body: one ledger lookup, one result object; the handler
  turns an exception into the result of this item.
\<close>

definition verifyItem :: "'cv env \<Rightarrow> ContractConfig \<Rightarrow> buffer \<Rightarrow> string \<Rightarrow> json io" where
  "verifyItem env config hashBytes hashHex =
     io_catch
       (io_bind (BlockchainService_verifyTweet env config hashBytes) (\<lambda>found.
        io_bind
          (case found of
             None \<Rightarrow> io_return JNull
           | Some verification \<Rightarrow>
               io_bind
                 (io_lift (toISOString env
                    (newDate (numTimes (TweetRegistration.timestamp verification) 1000))))
                 (\<lambda>registeredAt.
               io_return (JObj
                 [(''author'', author verification),
                  (''registeredAt'', registeredAt),
                  (''blockHeight'', JNum (TweetRegistration.blockHeight verification)),
                  (''registrationId'',
                     JNum (TweetRegistration.registrationId verification))])))
          (\<lambda>d.
        io_return (JObj
          [(''success'', JBool True),
           (''verified'', JBool (found \<noteq> None)),
           (''hash'', JStr hashHex),
           (''data'', d)]))))
       (\<lambda>error.
          io_return (JObj
            [(''success'', JBool False),
             (''verified'', JBool False),
             (''hash'', JStr hashHex),
             (''error'', JStr (errorMessage error))]))"

text \<open>The result pushed for an item that has neither content nor hash.\<close>

definition malformedItemResult :: json where
  "malformedItemResult =
     JObj [(''success'', JBool False),
           (''verified'', JBool False),
           (''error'', JStr ''Either content or hash required'')]"

text \<open>
  One iteration of the loop: the result pushed for \<open>item\<close>. The reads of \<open>item.content\<close>
  and \<open>item.hash\<close> and the hashing stand before the \<open>try\<close> of the iteration: reading a
  property of \<open>null\<close> throws, \<open>content.trim()\<close> throws when the content is not a string,
  and so does \<open>hexString.startsWith('0x')\<close> when the hash is not one.
\<close>

definition processItem :: "'cv env \<Rightarrow> ContractConfig \<Rightarrow> batch_item \<Rightarrow> json io" where
  "processItem env config item =
     (case item of
        NullItem \<Rightarrow> io_throw (Error ''Cannot read properties of null'')
      | Item c h \<Rightarrow>
          if fieldTruthy c then
            (case c of
               Given s \<Rightarrow>
                 verifyItem env config (generateContentHash (sha256 env) s)
                   (generateContentHashHex (sha256 env) s)
             | other \<Rightarrow> io_throw (Error ''content.trim is not a function''))
          else if fieldTruthy h then
            (case h of
               Given x \<Rightarrow> verifyItem env config (hexToBuffer x) x
             | other \<Rightarrow> io_throw (Error ''hexString.startsWith is not a function''))
          else io_return malformedItemResult)"

text \<open>\<open>for (const item of items) { ... results.push(...) }\<close>\<close>

fun processItems ::
  "'cv env \<Rightarrow> ContractConfig \<Rightarrow> batch_item list \<Rightarrow> json list \<Rightarrow> json list io" where
  "processItems env config [] results = io_return results"
| "processItems env config (item # items) results =
     io_bind (processItem env config item) (\<lambda>r.
     processItems env config items (results @ [r]))"

text \<open>\<open>batchVerify\<close>, \<open>POST /verify/batch\<close>.\<close>

definition batchVerify ::
  "'cv env \<Rightarrow> ContractConfig \<Rightarrow> items_field \<Rightarrow> response io" where
  "batchVerify env config itemsField =
     io_catch
       (case itemsField of
          NotAnArray \<Rightarrow>
            io_return (res_status_json 400 (JObj
              [(''success'', JBool False),
               (''message'', JStr ''Items array is required for batch verification'')]))
        | ItemArray items \<Rightarrow>
            if length items = 0 then
              io_return (res_status_json 400 (JObj
                [(''success'', JBool False),
                 (''message'', JStr ''Items array is required for batch verification'')]))
            else if length items > 10 then
              io_return (res_status_json 400 (JObj
                [(''success'', JBool False),
                 (''message'', JStr ''Maximum 10 items allowed per batch request'')]))
            else
              io_bind (processItems env config items []) (\<lambda>results.
              io_return (res_json (JObj
                [(''success'', JBool True),
                 (''message'', JStr (''Batch verification completed for '' @
                                     natString (length items) @ '' items'')),
                 (''results'', JArr results)]))))
       (\<lambda>error.
          io_return (res_status_json 500 (JObj
            [(''success'', JBool False),
             (''message'', JStr ''Error during batch verification''),
             (''error'', JStr (errorMessage error))])))"

section \<open>BNS Staleness Validator (\<open>BNSValidationService\<close>)\<close>

text \<open>
  \<open>await fetch(url, { headers })\<close> on the registry's
  \<open>/v1/addresses/stacks/{walletAddress}/names\<close>; the lookup is recorded in the world.
\<close>

definition registryFetch :: "'cv env \<Rightarrow> string \<Rightarrow> http_response io" where
  "registryFetch env walletAddress =
     (\<lambda>w. (fetchNames env walletAddress,
           w\<lparr>registryCalls := registryCalls w @ [walletAddress]\<rparr>))"

text \<open>
  \<open>fetchWalletBNSNames\<close>: the names of the reply; the empty list when the reply is not
  \<open>ok\<close>, when it has no \<open>names\<close>, and from the handler.
\<close>

definition fetchWalletBNSNames :: "'cv env \<Rightarrow> string \<Rightarrow> string list io" where
  "fetchWalletBNSNames env walletAddress =
     io_catch
       (io_bind (registryFetch env walletAddress) (\<lambda>response.
        if \<not> ok response then io_return []
        else
          io_bind (io_lift (responseJson response)) (\<lambda>d.
          io_return (case d of Some names \<Rightarrow> names | None \<Rightarrow> []))))
       (\<lambda>error. io_return [])"

record BNSValidationResult =
  isValid :: bool
  currentNames :: "string list"
  hasOriginalBNS :: bool
  status :: bns_status

text \<open>
  \<open>validateRegistration\<close>. The sweep passes \<open>registration.bnsName!\<close>, an assertion that
  checks nothing at run time, so the original name is optional here; an absent name is
  in no list.
\<close>

definition validateRegistration ::
  "'cv env \<Rightarrow> string option \<Rightarrow> string \<Rightarrow> BNSValidationResult io" where
  "validateRegistration env originalBNS walletAddress =
     io_bind (fetchWalletBNSNames env walletAddress) (\<lambda>names.
     if (case originalBNS of Some n \<Rightarrow> n \<in> set names | None \<Rightarrow> False) then
       io_return \<lparr>isValid = True, currentNames = names, hasOriginalBNS = True,
                  status = Valid\<rparr>
     else if length names > 0 then
       io_return \<lparr>isValid = False, currentNames = names, hasOriginalBNS = False,
                  status = Transferred\<rparr>
     else
       io_return \<lparr>isValid = False, currentNames = [], hasOriginalBNS = False,
                  status = NoLongerOwned\<rparr>)"

text \<open>\<open>result.currentNames[0] || null\<close>\<close>

fun firstNameOrNull :: "string list \<Rightarrow> string option" where
  "firstNameOrNull [] = None"
| "firstNameOrNull (n # ns) = (if n = [] then None else Some n)"

text \<open>
  The \<open>$set\<close> of the sweep, applied to a document; \<open>currentBnsOwner\<close> is declared with
  \<open>uppercase: true\<close>, so the store keeps the name in upper case.
\<close>

definition applyValidation :: "int \<Rightarrow> BNSValidationResult \<Rightarrow> IRegistration \<Rightarrow> IRegistration" where
  "applyValidation now res r =
     (if status res = Transferred then
        r\<lparr>lastBnsValidation := Some now,
          bnsStatus := Some (status res),
          bnsTransferredAt := Some now,
          currentBnsOwner := map_option toUpperCase (firstNameOrNull (currentNames res))\<rparr>
      else
        r\<lparr>lastBnsValidation := Some now,
          bnsStatus := Some (status res)\<rparr>)"

text \<open>
  The filter of the sweep: a \<open>bnsName\<close> that exists and is not null, and a
  \<open>lastBnsValidation\<close> that is absent or before the cut-off.
\<close>

definition isStale :: "int \<Rightarrow> IRegistration \<Rightarrow> bool" where
  "isStale cutoffDate r \<longleftrightarrow>
     IRegistration.bnsName r \<noteq> None \<and>
     (case lastBnsValidation r of None \<Rightarrow> True | Some t \<Rightarrow> t < cutoffDate)"

text \<open>The body of the \<open>for\<close> loop of \<open>validateStaleRegistrations\<close>, with its \<open>try\<close>.\<close>

fun validateEach :: "'cv env \<Rightarrow> IRegistration list \<Rightarrow> nat \<Rightarrow> nat io" where
  "validateEach env [] validatedCount = io_return validatedCount"
| "validateEach env (registration # rest) validatedCount =
     io_bind
       (io_catch
          (io_bind
             (validateRegistration env (IRegistration.bnsName registration)
                (authorWallet registration))
             (\<lambda>res.
           io_bind (io_modify (\<lambda>w. w\<lparr>registrations :=
                      updateFirst (\<lambda>r. ident r = ident registration)
                        (applyValidation (dateNow env) res) (registrations w)\<rparr>)) (\<lambda>_.
           io_return (validatedCount + 1))))
          (\<lambda>error. io_return validatedCount))
       (\<lambda>validatedCount'. validateEach env rest validatedCount')"

text \<open>\<open>validateStaleRegistrations(maxAge)\<close>: at most 100 stale registrations per sweep.\<close>

definition validateStaleRegistrations :: "'cv env \<Rightarrow> int \<Rightarrow> nat io" where
  "validateStaleRegistrations env maxAge =
     io_bind (io_read (\<lambda>w. take 100 (filter (isStale (dateNow env - maxAge)) (registrations w))))
       (\<lambda>staleRegistrations. validateEach env staleRegistrations 0)"

section \<open>Creation of a registration (\<open>RegistrationController\<close>, \<open>RegistrationSchema\<close>)\<close>

text \<open>
  \<open>new Registration({ contentHash, authorWallet, bnsName, content, blockchain:
  { status: 'pending' }, ipfs, ... })\<close> as \<open>secureRegisterTweet\<close> builds it, completed
  with the defaults of the schema: \<open>bnsStatus\<close> defaults to \<open>'valid'\<close>, the counters to 0,
  \<open>ipfs\<close> to \<open>{ pinned: false }\<close>. \<open>stored\<close> is the content id and gateway when the content
  went to IPFS.
\<close>

definition newRegistration ::
  "nat \<Rightarrow> int \<Rightarrow> string \<Rightarrow> string \<Rightarrow> string option \<Rightarrow> string option \<Rightarrow> string option
     \<Rightarrow> (string \<times> string) option \<Rightarrow> IRegistration" where
  "newRegistration newId now hashHex walletAddress bns tweetUrl handle stored =
     \<lparr>ident = newId,
      contentHash = toLowerCase hashHex,
      authorWallet = toUpperCase walletAddress,
      bnsName = bns,
      lastBnsValidation = None,
      bnsStatus = Some Valid,
      currentBnsOwner = None,
      bnsTransferredAt = None,
      content = \<lparr>url = tweetUrl, twitterHandle = handle\<rparr>,
      blockchain = \<lparr>txId = None, registrationId = None, IBlockchainData.status = Pending,
                    blockHeight = None, timestamp = None\<rparr>,
      ipfs = (case stored of
                Some (c, g) \<Rightarrow> \<lparr>cid = Some c, gateway = Some g, pinned = True,
                                 uploadedAt = Some now\<rparr>
              | None \<Rightarrow> \<lparr>cid = None, gateway = None, pinned = False, uploadedAt = None\<rparr>),
      analytics = \<lparr>views = 0, verifications = 0, lastViewed = None, lastVerified = None\<rparr>,
      createdAt = now\<rparr>"

section \<open>The other writers of the registrations collection\<close>

text \<open>
  Besides the resolver and the validator, three statements of \<open>RegistrationController\<close>
  write the collection; the handlers around them decide whether a statement runs and
  with which arguments, and otherwise read this collection or write elsewhere.

  \<open>await registration.save()\<close> in \<open>secureRegisterTweet\<close> inserts the new document; the
  unique index on \<open>contentHash\<close> refuses a second document for a hash.
\<close>

definition saveRegistration :: "IRegistration \<Rightarrow> unit io" where
  "saveRegistration doc =
     (\<lambda>w. if \<exists>r \<in> set (registrations w). contentHash r = contentHash doc
           then (Inl (Error ''E11000 duplicate key error''), w)
           else (Inr (), w\<lparr>registrations := registrations w @ [doc]\<rparr>))"

text \<open>
  The \<open>findOneAndUpdate\<close> of \<open>confirmRegistration\<close>: it sets \<open>blockchain.txId\<close>,
  \<open>blockchain.blockHeight\<close>, \<open>blockchain.registrationId\<close>, \<open>blockchain.status\<close> (to
  \<open>'confirmed'\<close>) and \<open>blockchain.timestamp\<close>. The block height and the registration id
  are given as the store casts them from the gateway's numbers.
\<close>

definition confirmUpdate ::
  "int \<Rightarrow> string \<Rightarrow> string \<Rightarrow> int option \<Rightarrow> string option \<Rightarrow> unit io" where
  "confirmUpdate now hashHex tx height regId =
     io_modify (\<lambda>w. w\<lparr>registrations :=
       updateFirst (\<lambda>r. contentHash r = toLowerCase hashHex)
         (\<lambda>r. r\<lparr>blockchain := (blockchain r)\<lparr>txId := Some tx,
                                               blockHeight := height,
                                               registrationId := regId,
                                               IBlockchainData.status := Confirmed,
                                               timestamp := Some now\<rparr>\<rparr>)
         (registrations w)\<rparr>)"

text \<open>The \<open>findByIdAndUpdate\<close> of \<open>retrieveOriginalContent\<close>: one more view.\<close>

definition countView :: "int \<Rightarrow> nat \<Rightarrow> unit io" where
  "countView now docId =
     io_modify (\<lambda>w. w\<lparr>registrations :=
       updateFirst (\<lambda>r. ident r = docId)
         (\<lambda>r. r\<lparr>analytics := (analytics r)\<lparr>views := views (analytics r) + 1,
                                             lastViewed := Some now\<rparr>\<rparr>)
         (registrations w)\<rparr>)"

text \<open>
  The methods of \<open>RegistrationSchema\<close> change the document they are called on and save
  it: \<open>updateBlockchainStatus\<close> (\<open>assign\<close> stands for \<open>Object.assign(this.blockchain, data)\<close>),
  \<open>incrementViews\<close>, \<open>incrementVerifications\<close> and \<open>setIPFSData\<close>.
\<close>

definition updateBlockchainStatus ::
  "chain_status \<Rightarrow> (IBlockchainData \<Rightarrow> IBlockchainData) \<Rightarrow> IRegistration \<Rightarrow> IRegistration" where
  "updateBlockchainStatus newStatus assign r =
     r\<lparr>blockchain := assign ((blockchain r)\<lparr>IBlockchainData.status := newStatus\<rparr>)\<rparr>"

definition incrementViews :: "int \<Rightarrow> IRegistration \<Rightarrow> IRegistration" where
  "incrementViews now r =
     r\<lparr>analytics := (analytics r)\<lparr>views := views (analytics r) + 1, lastViewed := Some now\<rparr>\<rparr>"

definition incrementVerifications :: "int \<Rightarrow> IRegistration \<Rightarrow> IRegistration" where
  "incrementVerifications now r =
     r\<lparr>analytics := (analytics r)\<lparr>verifications := verifications (analytics r) + 1,
                                    lastVerified := Some now\<rparr>\<rparr>"

definition setIPFSData :: "int \<Rightarrow> (IIPFSData \<Rightarrow> IIPFSData) \<Rightarrow> IRegistration \<Rightarrow> IRegistration" where
  "setIPFSData now assign r = r\<lparr>ipfs := (assign (ipfs r))\<lparr>uploadedAt := Some now\<rparr>\<rparr>"

text \<open>
  \<open>this.save()\<close> at the end of a method: the store writes the paths the method changed
  to the document with the \<open>_id\<close> of \<open>this\<close>.
\<close>

definition saveDocument :: "nat \<Rightarrow> (IRegistration \<Rightarrow> IRegistration) \<Rightarrow> unit io" where
  "saveDocument docId change =
     io_modify (\<lambda>w. w\<lparr>registrations :=
       updateFirst (\<lambda>r. ident r = docId) change (registrations w)\<rparr>)"

section \<open>What the environment answers\<close>

text \<open>
  The properties below speak about what the ledger and the registry answer. These
  definitions read the environment only; they are not part of the program.
\<close>

definition hashExistsCall :: "ContractConfig \<Rightarrow> string \<Rightarrow> string \<Rightarrow> buffer \<Rightarrow> call" where
  "hashExistsCall config address name hashBytes =
     ReadOnlyCall address name ''hash-exists'' [hashBytes] (network config)"

definition verifyContentCall :: "ContractConfig \<Rightarrow> string \<Rightarrow> string \<Rightarrow> buffer \<Rightarrow> call" where
  "verifyContentCall config address name hashBytes =
     ReadOnlyCall address name ''verify-content'' [hashBytes] (network config)"

definition statsCall :: "ContractConfig \<Rightarrow> call" where
  "statsCall config =
     ReadOnlyCall (contractAddress config) (contractName config) ''get-contract-stats'' []
       (network config)"

text \<open>The decoded answer to a read-only call, or the exception of the call or of the decoding.\<close>

definition decoded :: "'cv env \<Rightarrow> call \<Rightarrow> js_error + json" where
  "decoded env c = r_bind (fetchCallReadOnlyFunction env c) (cvToJSON env)"

text \<open>
  A read fails: the SDK rejects the call (no transport, a response it cannot parse, an
  error reported by the ledger) or the value cannot be decoded.
\<close>

definition readFails :: "'cv env \<Rightarrow> call \<Rightarrow> bool" where
  "readFails env c = (case decoded env c of Inl e \<Rightarrow> True | Inr j \<Rightarrow> False)"

text \<open>The contract version \<open>(address, name)\<close> reports that the hash exists.\<close>

definition existsOn :: "'cv env \<Rightarrow> ContractConfig \<Rightarrow> string \<times> string \<Rightarrow> buffer \<Rightarrow> bool" where
  "existsOn env config version hashBytes =
     (case decoded env (hashExistsCall config (fst version) (snd version) hashBytes) of
        Inl e \<Rightarrow> False
      | Inr j \<Rightarrow> getProp j ''value'' = Inr (JBool True))"

text \<open>
  How the detail fetch on a version ends: a record, no record (\<open>Inr None\<close>: the guard on
  \<open>success\<close> and \<open>value\<close> fails), or an exception of the call, the decoding or a property
  read.
\<close>

definition detailOutcome ::
  "'cv env \<Rightarrow> ContractConfig \<Rightarrow> string \<times> string \<Rightarrow> buffer
     \<Rightarrow> js_error + TweetRegistration option" where
  "detailOutcome env config version hashBytes =
     r_bind (decoded env (verifyContentCall config (fst version) (snd version) hashBytes))
       (parseVerifyContent env hashBytes)"

text \<open>The detail fetch fails or its result cannot be decoded into a record.\<close>

definition detailsUnavailable ::
  "'cv env \<Rightarrow> ContractConfig \<Rightarrow> string \<times> string \<Rightarrow> buffer \<Rightarrow> bool" where
  "detailsUnavailable env config version hashBytes =
     (case detailOutcome env config version hashBytes of
        Inr (Some r) \<Rightarrow> False
      | other \<Rightarrow> True)"

definition detailsOrBasic ::
  "'cv env \<Rightarrow> ContractConfig \<Rightarrow> string \<times> string \<Rightarrow> buffer \<Rightarrow> TweetRegistration" where
  "detailsOrBasic env config version hashBytes =
     (case detailOutcome env config version hashBytes of
        Inr (Some r) \<Rightarrow> r
      | other \<Rightarrow> basicInfo env hashBytes)"

text \<open>
  The priority order of the spec: the configured (primary) version first, then, on the
  network that has historical versions, the next-older and the oldest.
\<close>

definition primaryVersion :: "ContractConfig \<Rightarrow> string \<times> string" where
  "primaryVersion config = (contractAddress config, contractName config)"

definition versionV2 :: "string \<times> string" where
  "versionV2 = (contractAddressV2, contractNameV2)"

definition versionV1 :: "string \<times> string" where
  "versionV1 = (contractAddressV1, contractNameV1)"

definition versionPriority :: "ContractConfig \<Rightarrow> (string \<times> string) list" where
  "versionPriority config =
     primaryVersion config # (if network config = Mainnet then [versionV2, versionV1] else [])"

text \<open>The elements of a list up to and including the first that satisfies \<open>P\<close>.\<close>

fun takeThrough :: "('a \<Rightarrow> bool) \<Rightarrow> 'a list \<Rightarrow> 'a list" where
  "takeThrough P [] = []"
| "takeThrough P (x # xs) = (if P x then [x] else x # takeThrough P xs)"

text \<open>The versions on which a sequence of ledger calls checks existence, in order.\<close>

definition existenceChecks :: "call list \<Rightarrow> (string \<times> string) list" where
  "existenceChecks calls =
     map (\<lambda>c. (callAddress c, callName c)) (filter (\<lambda>c. callFunction c = ''hash-exists'') calls)"

text \<open>The ledger calls a run added to the world.\<close>

definition newCalls :: "world \<Rightarrow> world \<Rightarrow> call list" where
  "newCalls w w' = drop (length (ledgerCalls w)) (ledgerCalls w')"

text \<open>Total property read, for statements about response bodies.\<close>

definition field :: "json \<Rightarrow> string \<Rightarrow> json" where
  "field v k = (case getProp v k of Inl e \<Rightarrow> JUndefined | Inr x \<Rightarrow> x)"

text \<open>The names the registry yields for a wallet, as \<open>fetchWalletBNSNames\<close> reads them.\<close>

definition ownedNames :: "'cv env \<Rightarrow> string \<Rightarrow> string list" where
  "ownedNames env walletAddress =
     (case fetchNames env walletAddress of
        Inl e \<Rightarrow> []
      | Inr response \<Rightarrow>
          if \<not> ok response then []
          else (case responseJson response of
                  Inl e \<Rightarrow> []
                | Inr None \<Rightarrow> []
                | Inr (Some names) \<Rightarrow> names))"

text \<open>
  The list the registry gives for a wallet when the lookup succeeds (an \<open>ok\<close> reply whose
  body can be read; a body without \<open>names\<close> is the empty list), \<open>None\<close> when it fails.
\<close>

definition registryAnswer :: "'cv env \<Rightarrow> string \<Rightarrow> string list option" where
  "registryAnswer env walletAddress =
     (case fetchNames env walletAddress of
        Inl e \<Rightarrow> None
      | Inr response \<Rightarrow>
          if \<not> ok response then None
          else (case responseJson response of
                  Inl e \<Rightarrow> None
                | Inr None \<Rightarrow> Some []
                | Inr (Some names) \<Rightarrow> Some names))"

text \<open>The lookup of a wallet's names fails: \<open>fetch\<close> rejects, or the reply is not \<open>ok\<close>.\<close>

definition registryFails :: "'cv env \<Rightarrow> string \<Rightarrow> bool" where
  "registryFails env walletAddress =
     (case fetchNames env walletAddress of
        Inl e \<Rightarrow> True
      | Inr response \<Rightarrow> \<not> ok response)"

text \<open>The registrations a sweep at this moment selects.\<close>

definition selectedBySweep :: "'cv env \<Rightarrow> int \<Rightarrow> world \<Rightarrow> IRegistration list" where
  "selectedBySweep env maxAge w =
     take 100 (filter (isStale (dateNow env - maxAge)) (registrations w))"

text \<open>The document with a given \<open>_id\<close>.\<close>

definition byId :: "world \<Rightarrow> nat \<Rightarrow> IRegistration option" where
  "byId w i = find (\<lambda>r. ident r = i) (registrations w)"

text \<open>
  The spec's chain fallback as a function of the ledger's answers: the first version in
  priority order that reports existence decides, and the calls made are the existence
  checks up to that version, followed by its detail fetch.
\<close>

definition chainLookup :: "'cv env \<Rightarrow> ContractConfig \<Rightarrow> buffer \<Rightarrow> TweetRegistration option" where
  "chainLookup env config hashBytes =
     (case find (\<lambda>v. existsOn env config v hashBytes) (versionPriority config) of
        None \<Rightarrow> None
      | Some v \<Rightarrow> Some (detailsOrBasic env config v hashBytes))"

definition chainCalls :: "'cv env \<Rightarrow> ContractConfig \<Rightarrow> buffer \<Rightarrow> call list" where
  "chainCalls env config hashBytes =
     concat (map (\<lambda>v. hashExistsCall config (fst v) (snd v) hashBytes #
                       (if existsOn env config v hashBytes
                        then [verifyContentCall config (fst v) (snd v) hashBytes] else []))
               (takeThrough (\<lambda>v. existsOn env config v hashBytes) (versionPriority config)))"

text \<open>
  One batch item as a function of the ledger's answers: the result object the loop
  pushes for it, or the exception of its hashing, and the ledger calls it costs.
\<close>

definition itemVerdict :: "'cv env \<Rightarrow> ContractConfig \<Rightarrow> buffer \<Rightarrow> string \<Rightarrow> json" where
  "itemVerdict env config hashBytes hashHex =
     (case chainLookup env config hashBytes of
        None \<Rightarrow>
          JObj [(''success'', JBool True), (''verified'', JBool False),
                (''hash'', JStr hashHex), (''data'', JNull)]
      | Some verification \<Rightarrow>
          (case toISOString env
                  (newDate (numTimes (TweetRegistration.timestamp verification) 1000)) of
             Inl e \<Rightarrow>
               JObj [(''success'', JBool False), (''verified'', JBool False),
                     (''hash'', JStr hashHex), (''error'', JStr (errorMessage e))]
           | Inr registeredAt \<Rightarrow>
               JObj [(''success'', JBool True), (''verified'', JBool True),
                     (''hash'', JStr hashHex),
                     (''data'', JObj
                        [(''author'', author verification),
                         (''registeredAt'', registeredAt),
                         (''blockHeight'', JNum (TweetRegistration.blockHeight verification)),
                         (''registrationId'',
                            JNum (TweetRegistration.registrationId verification))])]))"

text \<open>
  An item on which the hashing throws: \<open>null\<close>, or a content (or, the content being
  falsy, a hash) that is truthy and not a string.
\<close>

fun notString :: "'a req_field \<Rightarrow> bool" where
  "notString (Other v) = True"
| "notString f = False"

definition illTyped :: "batch_item \<Rightarrow> bool" where
  "illTyped item =
     (case item of
        NullItem \<Rightarrow> True
      | Item c h \<Rightarrow>
          if fieldTruthy c then notString c
          else if fieldTruthy h then notString h
          else False)"

definition itemOutcome :: "'cv env \<Rightarrow> ContractConfig \<Rightarrow> batch_item \<Rightarrow> js_error + json" where
  "itemOutcome env config item =
     (case item of
        NullItem \<Rightarrow> Inl (Error ''Cannot read properties of null'')
      | Item c h \<Rightarrow>
          if fieldTruthy c then
            (case c of
               Given s \<Rightarrow>
                 Inr (itemVerdict env config (generateContentHash (sha256 env) s)
                        (generateContentHashHex (sha256 env) s))
             | other \<Rightarrow> Inl (Error ''content.trim is not a function''))
          else if fieldTruthy h then
            (case h of
               Given x \<Rightarrow> Inr (itemVerdict env config (hexToBuffer x) x)
             | other \<Rightarrow> Inl (Error ''hexString.startsWith is not a function''))
          else Inr malformedItemResult)"

definition itemCalls :: "'cv env \<Rightarrow> ContractConfig \<Rightarrow> batch_item \<Rightarrow> call list" where
  "itemCalls env config item =
     (case item of
        NullItem \<Rightarrow> []
      | Item c h \<Rightarrow>
          if fieldTruthy c then
            (case c of
               Given s \<Rightarrow> chainCalls env config (generateContentHash (sha256 env) s)
             | other \<Rightarrow> [])
          else if fieldTruthy h then
            (case h of
               Given x \<Rightarrow> chainCalls env config (hexToBuffer x)
             | other \<Rightarrow> [])
          else [])"

text \<open>
  The loop over a list of items: all the results when no hashing throws, else the
  exception of the first item on which it does; and the ledger calls made until then.
\<close>

fun batchOutcome :: "'cv env \<Rightarrow> ContractConfig \<Rightarrow> batch_item list \<Rightarrow> js_error + json list" where
  "batchOutcome env config [] = Inr []"
| "batchOutcome env config (item # items) =
     (case itemOutcome env config item of
        Inl e \<Rightarrow> Inl e
      | Inr r \<Rightarrow> (case batchOutcome env config items of
                    Inl e \<Rightarrow> Inl e
                  | Inr rs \<Rightarrow> Inr (r # rs)))"

definition batchCalls :: "'cv env \<Rightarrow> ContractConfig \<Rightarrow> batch_item list \<Rightarrow> call list" where
  "batchCalls env config items =
     concat (map (itemCalls env config) (takeWhile (\<lambda>i. \<not> illTyped i) items))"

text \<open>
  The sweep as a function of the registry's answers: the classification of one
  registration, the document after its update, and the store after the updates for a
  list of selected registrations.
\<close>

definition validationOf :: "'cv env \<Rightarrow> IRegistration \<Rightarrow> BNSValidationResult" where
  "validationOf env r =
     (if (case IRegistration.bnsName r of
            Some n \<Rightarrow> n \<in> set (ownedNames env (authorWallet r))
          | None \<Rightarrow> False)
      then \<lparr>isValid = True, currentNames = ownedNames env (authorWallet r),
            hasOriginalBNS = True, status = Valid\<rparr>
      else if length (ownedNames env (authorWallet r)) > 0
      then \<lparr>isValid = False, currentNames = ownedNames env (authorWallet r),
            hasOriginalBNS = False, status = Transferred\<rparr>
      else \<lparr>isValid = False, currentNames = [], hasOriginalBNS = False,
            status = NoLongerOwned\<rparr>)"

definition validated :: "'cv env \<Rightarrow> IRegistration \<Rightarrow> IRegistration" where
  "validated env r = applyValidation (dateNow env) (validationOf env r) r"

definition sweepStore :: "'cv env \<Rightarrow> IRegistration list \<Rightarrow> IRegistration list \<Rightarrow> IRegistration list" where
  "sweepStore env stale regs =
     foldl (\<lambda>rs s. updateFirst (\<lambda>r. ident r = ident s)
                      (applyValidation (dateNow env) (validationOf env s)) rs)
       regs stale"

text \<open>A computation that leaves the binding status of every stored registration alone.\<close>

definition keepsBnsStatus :: "'a io \<Rightarrow> bool" where
  "keepsBnsStatus m \<longleftrightarrow>
     (\<forall>w. map bnsStatus (registrations (snd (m w))) = map bnsStatus (registrations w))"

section \<open>Example inputs\<close>

text \<open>The code units of an ASCII string.\<close>

definition utf16 :: "string \<Rightarrow> jsstring" where
  "utf16 s = map (\<lambda>c. of_nat (of_char c)) s"

text \<open>The two tweets of the spec's example; the rocket is the surrogate pair D83D DE80.\<close>

definition tweetPlain :: jsstring where
  "tweetPlain = utf16 ''Just launched my new startup! '' @ [0xD83D, 0xDE80]"

definition tweetSpaced :: jsstring where
  "tweetSpaced = utf16 ''Just   launched my new startup! '' @ [0xD83D, 0xDE80] @ utf16 ''  ''"

text \<open>\<open>parseInt\<close> on the decimal strings the ledger sends for unsigned integers.\<close>

definition decimalValue :: "json \<Rightarrow> number" where
  "decimalValue v =
     (case v of
        JStr s \<Rightarrow>
          if s \<noteq> [] \<and> list_all (\<lambda>c. 48 \<le> (of_char c :: nat) \<and> (of_char c :: nat) \<le> 57) s
          then Num (of_nat (foldl (\<lambda>n c. 10 * n + (of_char c - 48)) 0 s))
          else NaN
      | other \<Rightarrow> NaN)"

definition mainnetConfig :: ContractConfig where
  "mainnetConfig =
     \<lparr>contractAddress = ''SPVQ61FEWR6M4HVAT3BNE07D4BNW6A1C2ACCNQ6F'',
      contractName = ''truthchain_v3'',
      network = Mainnet\<rparr>"

definition emptyWorld :: world where
  "emptyWorld =
     \<lparr>verificationCache = Map.empty, registrations = [], ledgerCalls = [], registryCalls = []\<rparr>"

definition sampleHashHex :: string where
  "sampleHashHex = ''9f86d081884c7d659a2feaa0c55ad015a3bf4f1b2b0b822cd15d6c15b0f00a08''"

text \<open>
  A ledger on which every hash is registered in the v1 contract only; its
  \<open>verify-content\<close> answers with a full tuple.
\<close>

definition ledgerOnlyV1 :: "call \<Rightarrow> js_error + json" where
  "ledgerOnlyV1 c =
     (if callFunction c = ''hash-exists'' then
        Inr (JObj [(''type'', JStr ''bool''),
                   (''value'', JBool (callAddress c = contractAddressV1 \<and>
                                      callName c = contractNameV1))])
      else if callFunction c = ''verify-content'' then
        Inr (JObj
          [(''type'', JStr ''(response (tuple) UnknownType)''),
           (''value'', JObj
              [(''type'', JStr ''(tuple)''),
               (''value'', JObj
                  [(''author'', JObj [(''type'', JStr ''principal''),
                                      (''value'', JStr ''SP1S7KX8TVSAWJ8CVJZQSFERBQ8BNCDXYFHXT21Z9'')]),
                   (''block-height'', JObj [(''type'', JStr ''uint''), (''value'', JStr ''150000'')]),
                   (''time-stamp'', JObj [(''type'', JStr ''uint''), (''value'', JStr ''1700000000'')]),
                   (''registration-id'', JObj [(''type'', JStr ''uint''), (''value'', JStr ''7'')])])]),
           (''success'', JBool True)])
      else Inl (Error ''NoSuchPublicFunction''))"

definition envOnlyV1 :: "json env" where
  "envOnlyV1 =
     \<lparr>fetchCallReadOnlyFunction = ledgerOnlyV1,
      cvToJSON = Inr,
      parseInt = decimalValue,
      dateNow = 1762041600000,
      isoString = (\<lambda>t. natString (nat t)),
      sha256 = (\<lambda>s. map ucast s),
      fetchNames = (\<lambda>a. Inr (HttpResponse True (Inr (Some []))))\<rparr>"

text \<open>
  A ledger that says every hash exists and then fails to give the details, and an
  environment in which neither the ledger nor the registry can be reached.
\<close>

definition ledgerNoDetails :: "call \<Rightarrow> js_error + json" where
  "ledgerNoDetails c =
     (if callFunction c = ''hash-exists'' then
        Inr (JObj [(''type'', JStr ''bool''), (''value'', JBool True)])
      else Inl (Error ''fetch failed''))"

definition envNoDetails :: "json env" where
  "envNoDetails = envOnlyV1\<lparr>fetchCallReadOnlyFunction := ledgerNoDetails\<rparr>"

definition envDown :: "json env" where
  "envDown =
     envOnlyV1\<lparr>fetchCallReadOnlyFunction := (\<lambda>c. Inl (Error ''fetch failed'')),
               fetchNames := (\<lambda>a. Inl (Error ''fetch failed''))\<rparr>"

text \<open>
  A pending registration of the sample hash that claims \<open>alice.btc\<close>, and a world whose
  cache still holds an unexpired negative answer for that hash.
\<close>

definition sampleRegistration :: IRegistration where
  "sampleRegistration =
     newRegistration 1 1762000000000 sampleHashHex ''sp2j6zy48gv1ez5v2v5rb9mp66sw86pykknrv9ej7''
       (Some ''alice.btc'') None None None"

definition negativeEntry :: IVerificationCache where
  "negativeEntry =
     \<lparr>result = JObj [(''isRegistered'', JBool False)],
      expiresAt = 1762043000000,
      hits = 1,
      lastAccessed = 1762039400000\<rparr>"

definition worldNegativeCache :: world where
  "worldNegativeCache =
     \<lparr>verificationCache = [sampleHashHex \<mapsto> negativeEntry],
      registrations = [sampleRegistration],
      ledgerCalls = [],
      registryCalls = []\<rparr>"

definition requestByHash :: VerifyTweetRequest where
  "requestByHash = \<lparr>tweetContent = None, hash = Some sampleHashHex\<rparr>"

text \<open>
  A batch of one content item and one item with neither content nor hash; and the batch
  \<open>[{ content: <the tweet> }, { content: 5 }, { hash: <the sample hash> }]\<close>, whose
  second item carries a number where a string is declared.
\<close>

definition sampleBatch :: "batch_item list" where
  "sampleBatch = [Item (Given tweetPlain) Absent, Item Absent Absent]"

definition batchWithNumber :: "batch_item list" where
  "batchWithNumber =
     [Item (Given tweetPlain) Absent,
      Item (Other (NumberValue (Num 5))) Absent,
      Item Absent (Given sampleHashHex)]"

text \<open>
  Worlds for the sweep: the sample registration alone, never validated; and the same
  registration marked \<open>transferred\<close> by an earlier sweep, two days before.
\<close>

definition worldOneRegistration :: world where
  "worldOneRegistration = emptyWorld\<lparr>registrations := [sampleRegistration]\<rparr>"

definition transferredRegistration :: IRegistration where
  "transferredRegistration =
     sampleRegistration\<lparr>bnsStatus := Some Transferred,
                        lastBnsValidation := Some 1761868800000,
                        bnsTransferredAt := Some 1761868800000,
                        currentBnsOwner := Some ''BOB.BTC''\<rparr>"

definition worldTransferred :: world where
  "worldTransferred = emptyWorld\<lparr>registrations := [transferredRegistration]\<rparr>"

text \<open>
  Registries: one that lists \<open>alice.btc\<close> for every wallet, and one that lists
  \<open>bob.btc\<close> and \<open>carol.btc\<close>.
\<close>

definition envOwnsAlice :: "json env" where
  "envOwnsAlice =
     envOnlyV1\<lparr>fetchNames := (\<lambda>a. Inr (HttpResponse True (Inr (Some [''alice.btc'']))))\<rparr>"


text \<open>The default \<open>maxAge\<close> of the sweep, 24 hours in milliseconds.\<close>

definition dayMs :: int where
  "dayMs = 24 * 60 * 60 * 1000"

section \<open>Auxiliary facts\<close>

lemmas io_defs = io_return_def io_throw_def io_lift_def io_bind_def io_catch_def
  io_modify_def io_read_def r_bind_def

subsection \<open>Normalisation\<close>

lemma dropWhile_keeps_last:
  "xs \<noteq> [] \<Longrightarrow> \<not> P (last xs) \<Longrightarrow> dropWhile P xs \<noteq> [] \<and> last (dropWhile P xs) = last xs"
  by (induction xs) (auto split: if_splits)

lemma last_dropWhile:
  "dropWhile P xs \<noteq> [] \<Longrightarrow> last (dropWhile P xs) = last xs"
  by (induction xs) (auto split: if_splits)

lemma trim_edgeClean: "edgeClean (trim s)"
proof -
  let ?u = "dropWhile isWhiteSpace s"
  let ?v = "dropWhile isWhiteSpace (rev ?u)"
  show ?thesis
  proof (cases "?v = []")
    case True
    then show ?thesis by (simp add: edgeClean_def trim_def)
  next
    case False
    have u: "?u \<noteq> []"
    proof
      assume "?u = []"
      then have "?v = []" by (simp del: dropWhile_eq_Nil_conv)
      with False show False by blast
    qed
    have hv: "\<not> isWhiteSpace (hd ?v)" using False by (simp add: hd_dropWhile)
    have hu: "\<not> isWhiteSpace (hd ?u)" using u by (simp add: hd_dropWhile)
    have "last ?v = last (rev ?u)"
      using False by (rule last_dropWhile)
    then have lv: "last ?v = hd ?u" using u by (simp add: last_rev)
    show ?thesis
      using False hv hu lv by (simp add: edgeClean_def trim_def hd_rev last_rev)
  qed
qed

lemma trim_id: "edgeClean s \<Longrightarrow> trim s = s"
proof (cases "s = []")
  case True
  then show ?thesis by (simp add: trim_def)
next
  case False
  assume "edgeClean s"
  with False have h: "\<not> isWhiteSpace (hd s)" and l: "\<not> isWhiteSpace (last s)"
    by (auto simp: edgeClean_def)
  from False h have a: "dropWhile isWhiteSpace s = s" by (cases s) auto
  from False l have b: "dropWhile isWhiteSpace (rev s) = rev s"
    by (cases "rev s") (auto simp: last_rev)
  show ?thesis by (simp add: trim_def a b)
qed

lemma collapse_hd:
  "s \<noteq> [] \<Longrightarrow> \<not> isWhiteSpace (hd s) \<Longrightarrow>
   collapseWhitespace s \<noteq> [] \<and> hd (collapseWhitespace s) = hd s"
  by (cases s) auto

lemma collapse_last:
  "s \<noteq> [] \<Longrightarrow> \<not> isWhiteSpace (last s) \<Longrightarrow>
   collapseWhitespace s \<noteq> [] \<and> last (collapseWhitespace s) = last s"
proof (induction s rule: collapseWhitespace.induct)
  case 1
  then show ?case by simp
next
  case (2 c cs)
  show ?case
  proof (cases "isWhiteSpace c")
    case True
    with "2.prems" have cs: "cs \<noteq> []" and l: "\<not> isWhiteSpace (last cs)"
      by (auto split: if_splits)
    from dropWhile_keeps_last[of cs isWhiteSpace] cs l
    have d: "dropWhile isWhiteSpace cs \<noteq> []" "last (dropWhile isWhiteSpace cs) = last cs"
      by auto
    from "2.IH"(1)[OF True d(1)] l d(2) cs True show ?thesis by simp
  next
    case False
    show ?thesis
    proof (cases "cs = []")
      case True
      with False show ?thesis by simp
    next
      case ne: False
      with "2.prems" have "\<not> isWhiteSpace (last cs)" by simp
      from "2.IH"(2)[OF False ne this] False ne show ?thesis by simp
    qed
  qed
qed

lemma collapse_edgeClean: "edgeClean s \<Longrightarrow> edgeClean (collapseWhitespace s)"
proof (cases "s = []")
  case True
  then show ?thesis by (simp add: edgeClean_def)
next
  case False
  assume "edgeClean s"
  with False have h: "\<not> isWhiteSpace (hd s)" and l: "\<not> isWhiteSpace (last s)"
    by (auto simp: edgeClean_def)
  from collapse_hd[OF False h] collapse_last[OF False l] h l
  show ?thesis by (simp add: edgeClean_def)
qed

lemma dropWhile_collapse:
  "s = [] \<or> \<not> isWhiteSpace (hd s) \<Longrightarrow>
   dropWhile isWhiteSpace (collapseWhitespace s) = collapseWhitespace s"
  by (cases s) auto

lemma collapse_idem: "collapseWhitespace (collapseWhitespace s) = collapseWhitespace s"
proof (induction s rule: collapseWhitespace.induct)
  case 1
  then show ?case by simp
next
  case (2 c cs)
  show ?case
  proof (cases "isWhiteSpace c")
    case True
    have sp: "isWhiteSpace 0x20" by (simp add: isWhiteSpace_def)
    have "dropWhile isWhiteSpace cs = [] \<or> \<not> isWhiteSpace (hd (dropWhile isWhiteSpace cs))"
      using hd_dropWhile[of isWhiteSpace cs] by blast
    from dropWhile_collapse[OF this] "2.IH"(1)[OF True] True sp show ?thesis by simp
  next
    case False
    with "2.IH"(2) show ?thesis by simp
  qed
qed

lemma cleanContent_idem: "cleanContent (cleanContent s) = cleanContent s"
  by (simp add: cleanContent_def trim_id collapse_edgeClean trim_edgeClean collapse_idem)

lemma cleanContent_examples: "cleanContent tweetSpaced = cleanContent tweetPlain"
  by (simp add: cleanContent_def tweetSpaced_def tweetPlain_def utf16_def trim_def
        isWhiteSpace_def)

section \<open>The claims\<close>

text \<open>
  C6. For every string \<open>s\<close>, hashing \<open>s\<close> and hashing its normal form (trimmed, every run
  of white space collapsed to one space) give the same digest, whatever the digest
  function; in particular the tweet of the spec's example and its copy with irregular
  white space hash to the same digest.
\<close>

theorem C6_hash_of_normal_form:
  "generateContentHash digest (cleanContent s) = generateContentHash digest s \<and>
   generateContentHash digest tweetSpaced = generateContentHash digest tweetPlain \<and>
   generateContentHashHex digest tweetSpaced = generateContentHashHex digest tweetPlain"
  by (simp add: generateContentHash_def generateContentHashHex_def cleanContent_idem
        cleanContent_examples)
subsection \<open>The gateway as a function of the ledger's answers\<close>

lemma hashExistsOnContract_eq:
  "hashExistsOnContract env config address name h w =
     (Inr (existsOn env config (address, name) h),
      w\<lparr>ledgerCalls := ledgerCalls w @ [hashExistsCall config address name h]\<rparr>)"
  by (auto simp: hashExistsOnContract_def existsOn_def decoded_def hashExistsCall_def
        callReadOnly_def io_defs split: sum.splits)

lemma verifyOnContract_eq:
  "verifyOnContract env config address name h w =
     (if existsOn env config (address, name) h
      then (Inr (Some (detailsOrBasic env config (address, name) h)),
            w\<lparr>ledgerCalls := ledgerCalls w @
               [hashExistsCall config address name h, verifyContentCall config address name h]\<rparr>)
      else (Inr None,
            w\<lparr>ledgerCalls := ledgerCalls w @ [hashExistsCall config address name h]\<rparr>))"
  unfolding verifyOnContract_def
  by (auto simp: hashExistsOnContract_eq fetchDetails_def detailsOrBasic_def detailOutcome_def
        decoded_def verifyContentCall_def callReadOnly_def io_defs
        split: sum.splits option.splits)

lemma getContractStats_eq:
  "getContractStats env config w =
     (Inr (case decoded env (statsCall config) of Inl e \<Rightarrow> JNull | Inr j \<Rightarrow> j),
      w\<lparr>ledgerCalls := ledgerCalls w @ [statsCall config]\<rparr>)"
  by (auto simp: getContractStats_def statsCall_def decoded_def callReadOnly_def io_defs
        split: sum.splits)

text \<open>
  C8. \<open>hashExists\<close> and \<open>getContractStats\<close> always return a value, never an exception.
  When the read fails (the SDK rejects the call for want of transport, for a malformed
  response or for an error reported by the ledger, or the value cannot be decoded)
  \<open>hashExists\<close> returns \<open>false\<close> and \<open>getContractStats\<close> returns \<open>null\<close>; and
  \<open>hashExists\<close> returns \<open>true\<close> only for a decoded answer whose \<open>value\<close> is \<open>true\<close>.
\<close>

theorem C8_gateway_reads_never_raise:
  "(\<exists>b. fst (hashExists env config h w) = Inr b) \<and>
   (\<exists>j. fst (getContractStats env config w) = Inr j) \<and>
   (readFails env (hashExistsCall config (contractAddress config) (contractName config) h)
      \<longrightarrow> fst (hashExists env config h w) = Inr False) \<and>
   (readFails env (statsCall config) \<longrightarrow> fst (getContractStats env config w) = Inr JNull) \<and>
   (fst (hashExists env config h w) = Inr True \<longleftrightarrow>
      (\<exists>j. decoded env
              (hashExistsCall config (contractAddress config) (contractName config) h) = Inr j \<and>
           getProp j ''value'' = Inr (JBool True)))"
  by (auto simp: hashExists_def hashExistsOnContract_eq getContractStats_eq readFails_def
        existsOn_def split: sum.splits)

theorem C8_witness:
  "readFails envDown
     (hashExistsCall mainnetConfig (contractAddress mainnetConfig) (contractName mainnetConfig)
        (hexToBuffer sampleHashHex)) \<and>
   readFails envDown (statsCall mainnetConfig) \<and>
   fst (hashExists envDown mainnetConfig (hexToBuffer sampleHashHex) emptyWorld) = Inr False \<and>
   fst (getContractStats envDown mainnetConfig emptyWorld) = Inr JNull"
proof -
  have a: "readFails envDown c" for c
    by (simp add: readFails_def decoded_def envDown_def envOnlyV1_def r_bind_def)
  from a C8_gateway_reads_never_raise[of envDown mainnetConfig "hexToBuffer sampleHashHex" emptyWorld]
  show ?thesis by blast
qed

text \<open>
  C5. On a contract version whose existence check reports \<open>true\<close> for the hash while the
  detail fetch fails or its result cannot be decoded into a record, \<open>verifyOnContract\<close>
  returns (it neither raises nor returns \<open>null\<close>) the degraded record: author
  \<open>'unknown'\<close>, block height 0, registration id 0, and \<open>Date.now() / 1000\<close> as timestamp.
\<close>

theorem C5_degraded_record:
  assumes "fst (hashExistsOnContract env config address name h w) = Inr True"
    and "detailsUnavailable env config (address, name) h"
  shows "fst (verifyOnContract env config address name h w) = Inr (Some (basicInfo env h)) \<and>
         TweetRegistration.hash (basicInfo env h) = h \<and>
         author (basicInfo env h) = JStr ''unknown'' \<and>
         TweetRegistration.blockHeight (basicInfo env h) = Num 0 \<and>
         TweetRegistration.registrationId (basicInfo env h) = Num 0 \<and>
         TweetRegistration.timestamp (basicInfo env h) = Num (of_int (dateNow env) / 1000)"
proof -
  from assms(1) have ex: "existsOn env config (address, name) h"
    by (simp add: hashExistsOnContract_eq)
  from assms(2) have "detailsOrBasic env config (address, name) h = basicInfo env h"
    by (auto simp: detailsUnavailable_def detailsOrBasic_def split: sum.splits option.splits)
  with ex show ?thesis
    by (simp add: verifyOnContract_eq basicInfo_def)
qed

text \<open>Three ways in which the details are unavailable.\<close>

lemma detailsUnavailable_when:
  "fetchCallReadOnlyFunction env (verifyContentCall config a n h) = Inl e \<Longrightarrow>
     detailsUnavailable env config (a, n) h"
  "fetchCallReadOnlyFunction env (verifyContentCall config a n h) = Inr cv \<Longrightarrow>
     cvToJSON env cv = Inl e \<Longrightarrow> detailsUnavailable env config (a, n) h"
  "fetchCallReadOnlyFunction env (verifyContentCall config a n h) = Inr cv \<Longrightarrow>
     cvToJSON env cv = Inr j \<Longrightarrow> \<not> truthy (field j ''success'') \<Longrightarrow>
     detailsUnavailable env config (a, n) h"
  by (auto simp: detailsUnavailable_def detailOutcome_def decoded_def parseVerifyContent_def
        field_def r_bind_def split: sum.splits option.splits)

theorem C5_witness:
  "fst (hashExistsOnContract envNoDetails mainnetConfig contractAddressV1 contractNameV1
          (hexToBuffer sampleHashHex) emptyWorld) = Inr True \<and>
   detailsUnavailable envNoDetails mainnetConfig (contractAddressV1, contractNameV1)
     (hexToBuffer sampleHashHex) \<and>
   fst (verifyOnContract envNoDetails mainnetConfig contractAddressV1 contractNameV1
          (hexToBuffer sampleHashHex) emptyWorld)
     = Inr (Some (basicInfo envNoDetails (hexToBuffer sampleHashHex))) \<and>
   author (basicInfo envNoDetails (hexToBuffer sampleHashHex)) = JStr ''unknown'' \<and>
   TweetRegistration.timestamp (basicInfo envNoDetails (hexToBuffer sampleHashHex))
     = Num 1762041600"
proof -
  have a: "fst (hashExistsOnContract envNoDetails mainnetConfig contractAddressV1 contractNameV1
          (hexToBuffer sampleHashHex) emptyWorld) = Inr True"
    by (simp add: hashExistsOnContract_eq existsOn_def decoded_def hashExistsCall_def
          envNoDetails_def envOnlyV1_def ledgerNoDetails_def r_bind_def)
  have b: "detailsUnavailable envNoDetails mainnetConfig (contractAddressV1, contractNameV1)
     (hexToBuffer sampleHashHex)"
    by (simp add: detailsUnavailable_def detailOutcome_def decoded_def verifyContentCall_def
          envNoDetails_def envOnlyV1_def ledgerNoDetails_def r_bind_def)
  have c: "dateNow envNoDetails = 1762041600000"
    by (simp add: envNoDetails_def envOnlyV1_def)
  from C5_degraded_record[OF a b] a b c show ?thesis by simp
qed
lemma BlockchainService_verifyTweet_eq:
  "BlockchainService_verifyTweet env config h w =
     (Inr (chainLookup env config h), w\<lparr>ledgerCalls := ledgerCalls w @ chainCalls env config h\<rparr>)"
  unfolding BlockchainService_verifyTweet_def
  by (simp add: verifyOnContract_eq chainLookup_def chainCalls_def versionPriority_def
        primaryVersion_def versionV2_def versionV1_def io_defs)

lemma existenceChecks_chainCalls:
  "existenceChecks (chainCalls env config h) =
     takeThrough (\<lambda>v. existsOn env config v h) (versionPriority config)"
proof -
  have "existenceChecks (concat (map (\<lambda>v. hashExistsCall config (fst v) (snd v) h #
                       (if P v then [verifyContentCall config (fst v) (snd v) h] else [])) vs)) = vs"
    for P and vs :: "(string \<times> string) list"
    by (induction vs)
      (auto simp: existenceChecks_def hashExistsCall_def verifyContentCall_def)
  then show ?thesis by (simp add: chainCalls_def)
qed

lemma newCalls_append [simp]: "newCalls w (w\<lparr>ledgerCalls := ledgerCalls w @ cs\<rparr>) = cs"
  by (simp add: newCalls_def)

text \<open>
  C2. \<open>BlockchainService.verifyTweet\<close> checks existence on the contract versions in
  priority order (the configured primary first; v2 and then v1 only on mainnet) and
  stops at the first version that reports existence, whose record it returns; it
  returns \<open>null\<close> exactly when no version in the order reports existence. So on mainnet a
  hash that only the v1 contract knows is verified, after the primary and v2 were
  checked, in this order, and reported nothing.
\<close>

theorem C2_version_fallback_order:
  "\<exists>w'. BlockchainService_verifyTweet env config h w = (Inr (chainLookup env config h), w') \<and>
     existenceChecks (newCalls w w') =
       takeThrough (\<lambda>v. existsOn env config v h)
         (primaryVersion config #
            (if network config = Mainnet then [versionV2, versionV1] else [])) \<and>
     (chainLookup env config h =
        (if existsOn env config (primaryVersion config) h
         then Some (detailsOrBasic env config (primaryVersion config) h)
         else if network config = Mainnet \<and> existsOn env config versionV2 h
         then Some (detailsOrBasic env config versionV2 h)
         else if network config = Mainnet \<and> existsOn env config versionV1 h
         then Some (detailsOrBasic env config versionV1 h)
         else None)) \<and>
     (network config = Mainnet \<and> \<not> existsOn env config (primaryVersion config) h \<and>
      \<not> existsOn env config versionV2 h \<and> existsOn env config versionV1 h
      \<longrightarrow> chainLookup env config h = Some (detailsOrBasic env config versionV1 h) \<and>
          existenceChecks (newCalls w w') = [primaryVersion config, versionV2, versionV1])"
  by (auto simp: BlockchainService_verifyTweet_eq existenceChecks_chainCalls chainLookup_def
        versionPriority_def)

lemma existsOn_envOnlyV1:
  "existsOn envOnlyV1 mainnetConfig v h \<longleftrightarrow> v = versionV1"
  by (cases v)
    (auto simp: existsOn_def decoded_def hashExistsCall_def envOnlyV1_def ledgerOnlyV1_def
      r_bind_def versionV1_def)

lemma versions_distinct:
  "primaryVersion mainnetConfig \<noteq> versionV1" "versionV2 \<noteq> versionV1"
  by (simp_all add: primaryVersion_def mainnetConfig_def versionV1_def versionV2_def
        contractAddressV1_def contractNameV1_def contractAddressV2_def contractNameV2_def)

theorem C2_witness:
  "network mainnetConfig = Mainnet \<and>
   \<not> existsOn envOnlyV1 mainnetConfig (primaryVersion mainnetConfig) (hexToBuffer sampleHashHex) \<and>
   \<not> existsOn envOnlyV1 mainnetConfig versionV2 (hexToBuffer sampleHashHex) \<and>
   existsOn envOnlyV1 mainnetConfig versionV1 (hexToBuffer sampleHashHex) \<and>
   (\<exists>w'. BlockchainService_verifyTweet envOnlyV1 mainnetConfig (hexToBuffer sampleHashHex)
            emptyWorld
          = (Inr (Some (detailsOrBasic envOnlyV1 mainnetConfig versionV1
                          (hexToBuffer sampleHashHex))), w') \<and>
          existenceChecks (newCalls emptyWorld w') =
            [primaryVersion mainnetConfig, versionV2, versionV1])"
proof -
  have n: "network mainnetConfig = Mainnet" by (simp add: mainnetConfig_def)
  from C2_version_fallback_order[of envOnlyV1 mainnetConfig "hexToBuffer sampleHashHex" emptyWorld]
    n versions_distinct
  show ?thesis by (auto simp: existsOn_envOnlyV1)
qed
subsection \<open>The resolver's steps\<close>





lemma verifyTweet_steps:
  assumes "present (tweetContent req) \<or> present (VerifyTweetRequest.hash req)"
    and "requestHashHex env req = Some h"
  shows "VerificationController_verifyTweet env config req w =
     (case cacheStep env h w of
        (Inl e, w1) \<Rightarrow> (Inr (res_status_json 500 (JObj
            [(''success'', JBool False),
             (''verified'', JBool False),
             (''message'', JStr ''Error during verification''),
             (''error'', JStr (errorMessage e))])), w1)
      | (Inr (Some r), w1) \<Rightarrow> (Inr r, w1)
      | (Inr None, w1) \<Rightarrow>
          (case storeStep env h w1 of
             (Inl e, w2) \<Rightarrow> (Inr (res_status_json 500 (JObj
                [(''success'', JBool False),
                 (''verified'', JBool False),
                 (''message'', JStr ''Error during verification''),
                 (''error'', JStr (errorMessage e))])), w2)
           | (Inr (Some r), w2) \<Rightarrow> (Inr r, w2)
           | (Inr None, w2) \<Rightarrow>
               (case chainStep env config req h w2 of
                  (Inl e, w3) \<Rightarrow> (Inr (res_status_json 500 (JObj
                    [(''success'', JBool False),
                     (''verified'', JBool False),
                     (''message'', JStr ''Error during verification''),
                     (''error'', JStr (errorMessage e))])), w3)
                | (Inr r, w3) \<Rightarrow> (Inr r, w3))))"
  using assms
  by (auto simp: VerificationController_verifyTweet_def io_defs
        split: prod.splits sum.splits option.splits)






lemma cacheStep_negative:
  assumes "verificationCache w (toLowerCase h) = Some c"
    and "dateNow env < expiresAt c"
    and "getProp (result c) ''isRegistered'' = Inr (JBool False)"
  shows "cacheStep env h w = (Inr None, deleteCache h w)"
proof -
  from assms(3) have t: "truthy (result c)"
    by (cases "result c") auto
  from assms(1,2) have f: "findLiveCache env h w = Some c"
    by (simp add: findLiveCache_def)
  show ?thesis
    by (simp add: cacheStep_def f t assms(3) isBoolean_def io_defs)
qed

lemma storeStep_found:
  assumes "findRegistration h w = Some reg"
  shows "storeStep env h w =
     (Inr (Some (res_json (JObj
        [(''success'', JBool True),
         (''verified'', JBool True),
         (''message'', JStr ''Content verified successfully''),
         (''data'', registrationData env h reg)]))),
      (upsertCache env h (registrationCacheResult env reg) w)
        \<lparr>registrations := updateFirst (\<lambda>r. ident r = ident reg)
           (countVerification (dateNow env)) (registrations w)\<rparr>)"
  using assms
  by (simp add: storeStep_def upsertCache_def findRegistration_def io_defs)

lemma find_Some_exists:
  "\<exists>x \<in> set xs. P x \<Longrightarrow> \<exists>y. find P xs = Some y \<and> y \<in> set xs \<and> P y"
  by (induction xs) auto

text \<open>The fields of the \<open>data\<close> object built from a registration.\<close>

lemma registrationData_fields:
  "field (registrationData env h reg) ''hash'' = JStr h"
  "field (registrationData env h reg) ''author'' = JStr (authorWallet reg)"
  "field (registrationData env h reg) ''bnsName''
     = (case IRegistration.bnsName reg of None \<Rightarrow> JUndefined | Some n \<Rightarrow> JStr n)"
  "field (registrationData env h reg) ''bnsStatus''
     = JStr (case bnsStatus reg of
               None \<Rightarrow> ''valid''
             | Some Valid \<Rightarrow> ''valid''
             | Some Transferred \<Rightarrow> ''transferred''
             | Some NoLongerOwned \<Rightarrow> ''no-longer-owned'')"
  "field (registrationData env h reg) ''lastBnsValidation''
     = (case lastBnsValidation reg of None \<Rightarrow> JUndefined | Some t \<Rightarrow> JDate (Date t))"
  "field (registrationData env h reg) ''registeredAt''
     = JStr (isoString env (case IBlockchainData.timestamp (blockchain reg) of
                              Some t \<Rightarrow> t | None \<Rightarrow> createdAt reg))"
  "field (registrationData env h reg) ''blockHeight''
     = JNum (Num (case IBlockchainData.blockHeight (blockchain reg) of
                    Some n \<Rightarrow> of_int n | None \<Rightarrow> 0))"
  "field (registrationData env h reg) ''registrationId''
     = (case IBlockchainData.registrationId (blockchain reg) of
          Some s \<Rightarrow> if s = [] then JNum (Num 0) else JStr s
        | None \<Rightarrow> JNum (Num 0))"
  "field (registrationData env h reg) ''txId''
     = JStr (case txId (blockchain reg) of Some t \<Rightarrow> t | None \<Rightarrow> [])"
  "field (registrationData env h reg) ''tweetUrl''
     = (case url (IRegistration.content reg) of None \<Rightarrow> JUndefined | Some u \<Rightarrow> JStr u)"
  "field (registrationData env h reg) ''twitterHandle''
     = (case twitterHandle (IRegistration.content reg) of
          None \<Rightarrow> JUndefined | Some u \<Rightarrow> JStr u)"
  by (auto simp: registrationData_def field_def orElse_def bnsStatusOrValid_def
        split: option.splits bns_status.splits)

text \<open>
  C1. Let a request to \<open>POST /verify\<close> resolve to the hash \<open>h\<close>, let the cache hold an
  unexpired entry for \<open>h\<close> (under the lower-case key the store uses) whose result is
  negative, and let the store hold a registration for \<open>h\<close> with chain status confirmed
  or pending. Then step 1 deletes the cache entry and falls through, step 2 finds a
  registration \<open>reg\<close> for \<open>h\<close> with such a status (the given one when the hash is unique
  in the store), and the response is 200 with \<open>success: true\<close>, \<open>verified: true\<close> and a
  \<open>data\<close> object that carries the hash of the request and the fields of \<open>reg\<close>: its
  author wallet, BNS name and status, last validation, registration time, block
  height, registration id, transaction id, tweet URL and handle. The ledger is not
  asked, and the cache ends with a positive entry for \<open>h\<close>, valid for one hour.
\<close>

theorem C1_negative_cache_does_not_mask:
  assumes "present (tweetContent req) \<or> present (VerifyTweetRequest.hash req)"
    and "requestHashHex env req = Some h"
    and "verificationCache w (toLowerCase h) = Some c"
    and "dateNow env < expiresAt c"
    and "getProp (result c) ''isRegistered'' = Inr (JBool False)"
    and "r0 \<in> set (registrations w)"
    and "contentHash r0 = toLowerCase h"
    and "IBlockchainData.status (blockchain r0) = Confirmed \<or>
         IBlockchainData.status (blockchain r0) = Pending"
  shows "\<exists>reg resp w' c'.
           cacheStep env h w = (Inr None, deleteCache h w) \<and>
           verificationCache (deleteCache h w) (toLowerCase h) = None \<and>
           findRegistration h (deleteCache h w) = Some reg \<and>
           reg \<in> set (registrations w) \<and> contentHash reg = toLowerCase h \<and>
           (IBlockchainData.status (blockchain reg) = Confirmed \<or>
            IBlockchainData.status (blockchain reg) = Pending) \<and>
           ((\<forall>r \<in> set (registrations w). contentHash r = toLowerCase h \<longrightarrow> r = r0)
              \<longrightarrow> reg = r0) \<and>
           VerificationController_verifyTweet env config req w = (Inr resp, w') \<and>
           statusCode resp = 200 \<and>
           field (body resp) ''success'' = JBool True \<and>
           field (body resp) ''verified'' = JBool True \<and>
           field (field (body resp) ''data'') ''hash'' = JStr h \<and>
           field (field (body resp) ''data'') ''author'' = JStr (authorWallet reg) \<and>
           field (field (body resp) ''data'') ''bnsName''
             = (case IRegistration.bnsName reg of None \<Rightarrow> JUndefined | Some n \<Rightarrow> JStr n) \<and>
           field (field (body resp) ''data'') ''bnsStatus''
             = JStr (case bnsStatus reg of
                       None \<Rightarrow> ''valid''
                     | Some Valid \<Rightarrow> ''valid''
                     | Some Transferred \<Rightarrow> ''transferred''
                     | Some NoLongerOwned \<Rightarrow> ''no-longer-owned'') \<and>
           field (field (body resp) ''data'') ''lastBnsValidation''
             = (case lastBnsValidation reg of None \<Rightarrow> JUndefined | Some t \<Rightarrow> JDate (Date t)) \<and>
           field (field (body resp) ''data'') ''registeredAt''
             = JStr (isoString env (case IBlockchainData.timestamp (blockchain reg) of
                                      Some t \<Rightarrow> t | None \<Rightarrow> createdAt reg)) \<and>
           field (field (body resp) ''data'') ''blockHeight''
             = JNum (Num (case IBlockchainData.blockHeight (blockchain reg) of
                            Some n \<Rightarrow> of_int n | None \<Rightarrow> 0)) \<and>
           field (field (body resp) ''data'') ''registrationId''
             = (case IBlockchainData.registrationId (blockchain reg) of
                  Some s \<Rightarrow> if s = [] then JNum (Num 0) else JStr s
                | None \<Rightarrow> JNum (Num 0)) \<and>
           field (field (body resp) ''data'') ''txId''
             = JStr (case txId (blockchain reg) of Some t \<Rightarrow> t | None \<Rightarrow> []) \<and>
           field (field (body resp) ''data'') ''tweetUrl''
             = (case url (IRegistration.content reg) of None \<Rightarrow> JUndefined | Some u \<Rightarrow> JStr u) \<and>
           field (field (body resp) ''data'') ''twitterHandle''
             = (case twitterHandle (IRegistration.content reg) of
                  None \<Rightarrow> JUndefined | Some u \<Rightarrow> JStr u) \<and>
           ledgerCalls w' = ledgerCalls w \<and>
           verificationCache w' (toLowerCase h) = Some c' \<and>
           expiresAt c' = dateNow env + 3600000 \<and>
           field (result c') ''isRegistered'' = JBool True \<and>
           field (result c') ''authorWallet'' = JStr (toUpperCase (authorWallet reg))"
proof -
  let ?P = "\<lambda>r. contentHash r = toLowerCase h \<and>
                (IBlockchainData.status (blockchain r) = Confirmed \<or>
                 IBlockchainData.status (blockchain r) = Pending)"
  from assms(6,7,8) have "\<exists>x \<in> set (registrations w). ?P x" by blast
  from find_Some_exists[of "registrations w" ?P, OF this] obtain reg where
    reg: "find ?P (registrations w) = Some reg" "reg \<in> set (registrations w)" "?P reg"
    by blast
  have fr: "findRegistration h (deleteCache h w) = Some reg"
    using reg(1) by (simp add: findRegistration_def deleteCache_def)
  note cs = cacheStep_negative[OF assms(3,4,5)]
  note ss = storeStep_found[OF fr, of env]
  let ?resp = "res_json (JObj
        [(''success'', JBool True),
         (''verified'', JBool True),
         (''message'', JStr ''Content verified successfully''),
         (''data'', registrationData env h reg)])"
  let ?w' = "(upsertCache env h (registrationCacheResult env reg) (deleteCache h w))
        \<lparr>registrations := updateFirst (\<lambda>r. ident r = ident reg)
           (countVerification (dateNow env)) (registrations (deleteCache h w))\<rparr>"
  have vt: "VerificationController_verifyTweet env config req w = (Inr ?resp, ?w')"
    by (simp add: verifyTweet_steps[OF assms(1,2)] cs ss)
  have uniq: "(\<forall>r \<in> set (registrations w). contentHash r = toLowerCase h \<longrightarrow> r = r0)
                \<longrightarrow> reg = r0"
    using reg(2,3) by blast
  have d: "field (body ?resp) ''data'' = registrationData env h reg"
    and b: "statusCode ?resp = 200" "field (body ?resp) ''success'' = JBool True"
      "field (body ?resp) ''verified'' = JBool True"
    by (simp_all add: res_json_def field_def)
  have k: "verificationCache (deleteCache h w) (toLowerCase h) = None"
    by (simp add: deleteCache_def)
  have l: "ledgerCalls ?w' = ledgerCalls w"
    by (simp add: upsertCache_def deleteCache_def)
  let ?c' = "\<lparr>result = castResult (registrationCacheResult env reg),
             expiresAt = dateNow env + 3600000,
             hits = 1,
             lastAccessed = dateNow env\<rparr>"
  have c1: "verificationCache ?w' (toLowerCase h) = Some ?c'"
    by (simp add: upsertCache_def deleteCache_def)
  have c2: "field (result ?c') ''isRegistered'' = JBool True"
    "field (result ?c') ''authorWallet'' = JStr (toUpperCase (authorWallet reg))"
    by (simp_all add: registrationCacheResult_def field_def)
  have c3: "expiresAt ?c' = dateNow env + 3600000" by simp
  show ?thesis
    apply (rule exI[of _ reg], rule exI[of _ ?resp], rule exI[of _ ?w'], rule exI[of _ ?c'])
    using cs k fr reg(2,3) uniq vt b l c1 c2 c3
    by (simp add: d registrationData_fields)
qed

lemma lowerCase_sampleHashHex: "toLowerCase sampleHashHex = sampleHashHex"
  by (simp add: toLowerCase_def sampleHashHex_def)

lemma upperCase_sampleWallet:
  "toUpperCase ''sp2j6zy48gv1ez5v2v5rb9mp66sw86pykknrv9ej7''
     = ''SP2J6ZY48GV1EZ5V2V5RB9MP66SW86PYKKNRV9EJ7''"
  by code_simp

lemma sampleRegistration_fields:
  "contentHash sampleRegistration = sampleHashHex"
  "authorWallet sampleRegistration = ''SP2J6ZY48GV1EZ5V2V5RB9MP66SW86PYKKNRV9EJ7''"
  "IRegistration.bnsName sampleRegistration = Some ''alice.btc''"
  "bnsStatus sampleRegistration = Some Valid"
  "IBlockchainData.status (blockchain sampleRegistration) = Pending"
  "txId (blockchain sampleRegistration) = None"
  "ident sampleRegistration = 1"
  by (simp_all add: sampleRegistration_def newRegistration_def lowerCase_sampleHashHex
        upperCase_sampleWallet)

theorem C1_witness:
  "present (VerifyTweetRequest.hash requestByHash) \<and>
   requestHashHex envOnlyV1 requestByHash = Some sampleHashHex \<and>
   verificationCache worldNegativeCache (toLowerCase sampleHashHex) = Some negativeEntry \<and>
   dateNow envOnlyV1 < expiresAt negativeEntry \<and>
   getProp (result negativeEntry) ''isRegistered'' = Inr (JBool False) \<and>
   registrations worldNegativeCache = [sampleRegistration] \<and>
   contentHash sampleRegistration = toLowerCase sampleHashHex \<and>
   IBlockchainData.status (blockchain sampleRegistration) = Pending \<and>
   (\<exists>resp w'. VerificationController_verifyTweet envOnlyV1 mainnetConfig requestByHash
            worldNegativeCache = (Inr resp, w') \<and>
          statusCode resp = 200 \<and>
          field (body resp) ''success'' = JBool True \<and>
          field (body resp) ''verified'' = JBool True \<and>
          field (field (body resp) ''data'') ''hash'' = JStr sampleHashHex \<and>
          field (field (body resp) ''data'') ''author''
            = JStr ''SP2J6ZY48GV1EZ5V2V5RB9MP66SW86PYKKNRV9EJ7'' \<and>
          field (field (body resp) ''data'') ''bnsName'' = JStr ''alice.btc'' \<and>
          field (field (body resp) ''data'') ''bnsStatus'' = JStr ''valid'' \<and>
          field (field (body resp) ''data'') ''txId'' = JStr [] \<and>
          ledgerCalls w' = [])"
proof -
  have ne: "sampleHashHex \<noteq> []" by (simp add: sampleHashHex_def)
  have 1: "present (tweetContent requestByHash) \<or> present (VerifyTweetRequest.hash requestByHash)"
    using ne by (simp add: requestByHash_def)
  have 2: "requestHashHex envOnlyV1 requestByHash = Some sampleHashHex"
    by (simp add: requestHashHex_def requestByHash_def)
  have 3: "verificationCache worldNegativeCache (toLowerCase sampleHashHex) = Some negativeEntry"
    by (simp add: worldNegativeCache_def lowerCase_sampleHashHex)
  have 4: "dateNow envOnlyV1 < expiresAt negativeEntry"
    by (simp add: envOnlyV1_def negativeEntry_def)
  have 5: "getProp (result negativeEntry) ''isRegistered'' = Inr (JBool False)"
    by (simp add: negativeEntry_def)
  have rs: "registrations worldNegativeCache = [sampleRegistration]"
    by (simp add: worldNegativeCache_def)
  have 6: "sampleRegistration \<in> set (registrations worldNegativeCache)"
    by (simp add: rs)
  have 7: "contentHash sampleRegistration = toLowerCase sampleHashHex"
    by (simp add: sampleRegistration_fields lowerCase_sampleHashHex)
  have 8: "IBlockchainData.status (blockchain sampleRegistration) = Confirmed \<or>
           IBlockchainData.status (blockchain sampleRegistration) = Pending"
    by (simp add: sampleRegistration_fields)
  have u: "\<forall>r \<in> set (registrations worldNegativeCache).
             contentHash r = toLowerCase sampleHashHex \<longrightarrow> r = sampleRegistration"
    by (simp add: rs)
  have l: "ledgerCalls worldNegativeCache = []" by (simp add: worldNegativeCache_def)
  from C1_negative_cache_does_not_mask[OF 1 2 3 4 5 6 7 8, of mainnetConfig] u l
  have "\<exists>resp w'. VerificationController_verifyTweet envOnlyV1 mainnetConfig requestByHash
            worldNegativeCache = (Inr resp, w') \<and>
          statusCode resp = 200 \<and>
          field (body resp) ''success'' = JBool True \<and>
          field (body resp) ''verified'' = JBool True \<and>
          field (field (body resp) ''data'') ''hash'' = JStr sampleHashHex \<and>
          field (field (body resp) ''data'') ''author''
            = JStr ''SP2J6ZY48GV1EZ5V2V5RB9MP66SW86PYKKNRV9EJ7'' \<and>
          field (field (body resp) ''data'') ''bnsName'' = JStr ''alice.btc'' \<and>
          field (field (body resp) ''data'') ''bnsStatus'' = JStr ''valid'' \<and>
          field (field (body resp) ''data'') ''txId'' = JStr [] \<and>
          ledgerCalls w' = []"
    by (auto simp: sampleRegistration_fields)
  with 1 2 3 4 5 7 rs show ?thesis
    by (simp add: requestByHash_def sampleRegistration_fields)
qed

subsection \<open>The batch loop\<close>

lemma verifyItem_eq:
  "verifyItem env config hb hx w =
     (Inr (itemVerdict env config hb hx),
      w\<lparr>ledgerCalls := ledgerCalls w @ chainCalls env config hb\<rparr>)"
  by (simp add: verifyItem_def itemVerdict_def BlockchainService_verifyTweet_eq io_defs
        split: option.splits sum.splits)

lemma processItem_eq:
  "processItem env config item w =
     (itemOutcome env config item,
      w\<lparr>ledgerCalls := ledgerCalls w @ itemCalls env config item\<rparr>)"
  by (simp add: processItem_def itemOutcome_def itemCalls_def verifyItem_eq io_defs
        split: batch_item.splits req_field.splits)

lemma illTyped_iff: "illTyped item \<longleftrightarrow> (\<exists>e. itemOutcome env config item = Inl e)"
  by (auto simp: illTyped_def itemOutcome_def split: batch_item.splits req_field.splits)

lemma itemCalls_illTyped: "illTyped item \<Longrightarrow> itemCalls env config item = []"
  by (auto simp: illTyped_def itemCalls_def split: batch_item.splits req_field.splits if_splits)

lemma processItems_eq:
  "processItems env config items acc w =
     ((case batchOutcome env config items of Inl e \<Rightarrow> Inl e | Inr rs \<Rightarrow> Inr (acc @ rs)),
      w\<lparr>ledgerCalls := ledgerCalls w @ batchCalls env config items\<rparr>)"
proof (induction items arbitrary: acc w)
  case Nil
  then show ?case by (simp add: batchCalls_def io_defs)
next
  case (Cons item items)
  show ?case
  proof (cases "illTyped item")
    case True
    then obtain e where e: "itemOutcome env config item = Inl e"
      using illTyped_iff by blast
    with True show ?thesis
      by (simp add: processItem_eq batchCalls_def itemCalls_illTyped io_defs)
  next
    case False
    then obtain r where r: "itemOutcome env config item = Inr r"
      using illTyped_iff[of item env config] by (cases "itemOutcome env config item") auto
    with False show ?thesis
      by (simp add: processItem_eq batchCalls_def Cons.IH io_defs split: sum.splits)
  qed
qed

lemma batchOutcome_well_typed:
  "\<forall>i \<in> set items. \<not> illTyped i \<Longrightarrow>
   \<exists>rs. batchOutcome env config items = Inr rs \<and>
        map Inr rs = map (itemOutcome env config) items"
proof (induction items)
  case Nil
  then show ?case by simp
next
  case (Cons item items)
  then obtain rs where rs: "batchOutcome env config items = Inr rs"
    "map Inr rs = map (itemOutcome env config) items"
    by auto
  from Cons.prems obtain r where r: "itemOutcome env config item = Inr r"
    using illTyped_iff[of item env config] by (cases "itemOutcome env config item") auto
  with rs show ?case by simp
qed

lemma batchOutcome_ill_typed:
  "\<exists>i \<in> set items. illTyped i \<Longrightarrow> \<exists>e. batchOutcome env config items = Inl e"
proof (induction items)
  case Nil
  then show ?case by simp
next
  case (Cons item items)
  show ?case
  proof (cases "illTyped item")
    case True
    then show ?thesis using illTyped_iff[of item env config] by auto
  next
    case False
    with Cons obtain e where "batchOutcome env config items = Inl e" by auto
    then show ?thesis by (simp split: sum.splits)
  qed
qed

lemma batchVerify_rejected:
  "itemsField = NotAnArray \<or> itemsField = ItemArray [] \<or>
   (\<exists>items. itemsField = ItemArray items \<and> length items > 10) \<Longrightarrow>
   \<exists>b. batchVerify env config itemsField w = (Inr \<lparr>statusCode = 400, body = b\<rparr>, w)"
  by (auto simp: batchVerify_def res_status_json_def io_defs)

text \<open>
  On a batch of one to ten items on none of which the hashing throws, the answer is 200
  with one result per item, in order: the result at position \<open>i\<close> is the outcome of item
  \<open>i\<close>, which depends on that item and on the ledger's answers only; the cache and the
  store are not touched.
\<close>

lemma batchVerify_well_typed:
  assumes "items \<noteq> []" and "length items \<le> 10" and "\<forall>i \<in> set items. \<not> illTyped i"
  shows "\<exists>rs. batchVerify env config (ItemArray items) w =
           (Inr \<lparr>statusCode = 200,
                 body = JObj
                   [(''success'', JBool True),
                    (''message'', JStr (''Batch verification completed for '' @
                                        natString (length items) @ '' items'')),
                    (''results'', JArr rs)]\<rparr>,
            w\<lparr>ledgerCalls := ledgerCalls w @ concat (map (itemCalls env config) items)\<rparr>) \<and>
           length rs = length items \<and>
           map Inr rs = map (itemOutcome env config) items"
proof -
  from batchOutcome_well_typed[OF assms(3), of env config] obtain rs where
    rs: "batchOutcome env config items = Inr rs"
        "map Inr rs = map (itemOutcome env config) items"
    by blast
  from assms(3) have "takeWhile (\<lambda>i. \<not> illTyped i) items = items"
    by simp
  then have t: "batchCalls env config items = concat (map (itemCalls env config) items)"
    by (simp only: batchCalls_def)
  from rs(2) have "length rs = length items"
    by (metis length_map)
  with rs assms(1,2) t show ?thesis
    by (simp add: batchVerify_def processItems_eq res_json_def io_defs)
qed

text \<open>The outcome of an item as a function of what the chain fallback finds.\<close>

lemma itemOutcome_cases:
  "itemOutcome env config (Item Absent Absent) = Inr malformedItemResult"
  "s \<noteq> [] \<Longrightarrow> chainLookup env config (generateContentHash (sha256 env) s) = None \<Longrightarrow>
   itemOutcome env config (Item (Given s) h) =
     Inr (JObj [(''success'', JBool True), (''verified'', JBool False),
                (''hash'', JStr (generateContentHashHex (sha256 env) s)), (''data'', JNull)])"
  "s \<noteq> [] \<Longrightarrow> chainLookup env config (generateContentHash (sha256 env) s) = Some v \<Longrightarrow>
   newDate (numTimes (TweetRegistration.timestamp v) 1000) = Date t \<Longrightarrow>
   itemOutcome env config (Item (Given s) h) =
     Inr (JObj [(''success'', JBool True), (''verified'', JBool True),
                (''hash'', JStr (generateContentHashHex (sha256 env) s)),
                (''data'', JObj
                   [(''author'', author v),
                    (''registeredAt'', JStr (isoString env t)),
                    (''blockHeight'', JNum (TweetRegistration.blockHeight v)),
                    (''registrationId'', JNum (TweetRegistration.registrationId v))])])"
  by (simp_all add: itemOutcome_def itemVerdict_def)

text \<open>
  C7. For a batch in which every item is typed as declared the claim holds (lemmas
  \<open>batchVerify_rejected\<close> and \<open>batchVerify_well_typed\<close>). But the hashing of an item
  stands before the \<open>try\<close> of its iteration: in a batch of one to ten items, an item
  that is \<open>null\<close>, or whose content (or, without content, whose hash) is truthy and not
  a string, throws to the handler of the whole request. The answer is then 500 with no
  result for any item, and the items after the first such item are not looked up.
\<close>

theorem C7_ill_typed_item_aborts_batch:
  assumes "items \<noteq> []" and "length items \<le> 10" and "\<exists>i \<in> set items. illTyped i"
  shows "\<exists>e w'. batchVerify env config (ItemArray items) w =
           (Inr \<lparr>statusCode = 500,
                 body = JObj
                   [(''success'', JBool False),
                    (''message'', JStr ''Error during batch verification''),
                    (''error'', JStr e)]\<rparr>, w') \<and>
           newCalls w w' =
             concat (map (itemCalls env config) (takeWhile (\<lambda>i. \<not> illTyped i) items))"
proof -
  from batchOutcome_ill_typed[OF assms(3), of env config] obtain e where
    "batchOutcome env config items = Inl e"
    by blast
  with assms(1,2) show ?thesis
    by (simp add: batchVerify_def processItems_eq batchCalls_def res_status_json_def io_defs)
qed

theorem C7_abort_evaluated:
  "batchWithNumber \<noteq> [] \<and> length batchWithNumber \<le> 10 \<and>
   illTyped (batchWithNumber ! 1) \<and> \<not> illTyped (batchWithNumber ! 0) \<and>
   \<not> illTyped (batchWithNumber ! 2) \<and>
   (\<exists>w'. batchVerify envOnlyV1 mainnetConfig (ItemArray batchWithNumber) emptyWorld =
           (Inr \<lparr>statusCode = 500,
                 body = JObj
                   [(''success'', JBool False),
                    (''message'', JStr ''Error during batch verification''),
                    (''error'', JStr ''content.trim is not a function'')]\<rparr>, w') \<and>
          newCalls emptyWorld w' =
            itemCalls envOnlyV1 mainnetConfig (Item (Given tweetPlain) Absent))"
proof -
  have ne: "tweetPlain \<noteq> []" by (simp add: tweetPlain_def)
  have 1: "batchWithNumber \<noteq> []" "length batchWithNumber \<le> 10"
    by (simp_all add: batchWithNumber_def)
  have 2: "illTyped (batchWithNumber ! 1)" "\<not> illTyped (batchWithNumber ! 0)"
    "\<not> illTyped (batchWithNumber ! 2)"
    using ne by (simp_all add: batchWithNumber_def illTyped_def sampleHashHex_def)
  have 3: "\<exists>i \<in> set batchWithNumber. illTyped i"
    by (simp add: batchWithNumber_def illTyped_def)
  have t: "takeWhile (\<lambda>i. \<not> illTyped i) batchWithNumber = [Item (Given tweetPlain) Absent]"
    using ne by (simp add: batchWithNumber_def illTyped_def)
  from C7_ill_typed_item_aborts_batch[OF 1 3, of envOnlyV1 mainnetConfig emptyWorld]
  obtain e w' where
    r: "batchVerify envOnlyV1 mainnetConfig (ItemArray batchWithNumber) emptyWorld =
           (Inr \<lparr>statusCode = 500,
                 body = JObj
                   [(''success'', JBool False),
                    (''message'', JStr ''Error during batch verification''),
                    (''error'', JStr e)]\<rparr>, w')"
       "newCalls emptyWorld w' =
          concat (map (itemCalls envOnlyV1 mainnetConfig)
                    (takeWhile (\<lambda>i. \<not> illTyped i) batchWithNumber))"
    by blast
  have o: "batchOutcome envOnlyV1 mainnetConfig batchWithNumber
             = Inl (Error ''content.trim is not a function'')"
    using ne by (simp add: batchWithNumber_def itemOutcome_def split: sum.splits)
  have "batchVerify envOnlyV1 mainnetConfig (ItemArray batchWithNumber) emptyWorld =
           (Inr \<lparr>statusCode = 500,
                 body = JObj
                   [(''success'', JBool False),
                    (''message'', JStr ''Error during batch verification''),
                    (''error'', JStr ''content.trim is not a function'')]\<rparr>,
            emptyWorld\<lparr>ledgerCalls := ledgerCalls emptyWorld @
               batchCalls envOnlyV1 mainnetConfig batchWithNumber\<rparr>)"
    using 1 o
    by (simp add: batchVerify_def processItems_eq res_status_json_def io_defs)
  with r have "e = ''content.trim is not a function''" by simp
  with r t 1 2 show ?thesis by simp
qed

subsection \<open>The sweep as a function of the registry's answers\<close>

lemma fetchWalletBNSNames_eq:
  "fetchWalletBNSNames env a w =
     (Inr (ownedNames env a), w\<lparr>registryCalls := registryCalls w @ [a]\<rparr>)"
  by (auto simp: fetchWalletBNSNames_def registryFetch_def ownedNames_def io_defs
        split: sum.splits option.splits)

lemma validateRegistration_eq:
  "validateRegistration env (IRegistration.bnsName r) (authorWallet r) w =
     (Inr (validationOf env r), w\<lparr>registryCalls := registryCalls w @ [authorWallet r]\<rparr>)"
  by (simp add: validateRegistration_def validationOf_def fetchWalletBNSNames_eq io_defs)

lemma validateEach_eq:
  "validateEach env stale n w =
     (Inr (n + length stale),
      w\<lparr>registrations := sweepStore env stale (registrations w),
        registryCalls := registryCalls w @ map authorWallet stale\<rparr>)"
  by (induction stale arbitrary: n w)
    (simp_all add: validateRegistration_eq sweepStore_def io_defs)

lemma validateStaleRegistrations_eq:
  "validateStaleRegistrations env maxAge w =
     (Inr (length (selectedBySweep env maxAge w)),
      w\<lparr>registrations := sweepStore env (selectedBySweep env maxAge w) (registrations w),
        registryCalls := registryCalls w @ map authorWallet (selectedBySweep env maxAge w)\<rparr>)"
  by (simp add: validateStaleRegistrations_def validateEach_eq selectedBySweep_def io_defs)

lemma ident_applyValidation [simp]: "ident (applyValidation now res r) = ident r"
  by (simp add: applyValidation_def)

lemma updateFirst_distinct:
  "distinct (map ident rs) \<Longrightarrow>
   updateFirst (\<lambda>r. ident r = i) f rs = map (\<lambda>r. if ident r = i then f r else r) rs"
proof (induction rs)
  case Nil
  then show ?case by simp
next
  case (Cons x xs)
  show ?case
  proof (cases "ident x = i")
    case True
    from Cons.prems have "ident x \<notin> ident ` set xs" by simp
    with True have "\<forall>r \<in> set xs. ident r \<noteq> i" by blast
    then have "map (\<lambda>r. if ident r = i then f r else r) xs = xs"
      by (induction xs) auto
    with True show ?thesis by simp
  next
    case False
    with Cons show ?thesis by simp
  qed
qed

text \<open>What the updates for the list \<open>stale\<close> make of one document.\<close>

lemma sweepStore_map:
  "distinct (map ident rs) \<Longrightarrow>
   sweepStore env stale rs =
     map (\<lambda>r. foldl (\<lambda>r s. if ident r = ident s
                             then applyValidation (dateNow env) (validationOf env s) r else r)
                 r stale) rs"
proof (induction stale arbitrary: rs)
  case Nil
  then show ?case by (simp add: sweepStore_def)
next
  case (Cons s stale)
  let ?g = "\<lambda>r. if ident r = ident s
                 then applyValidation (dateNow env) (validationOf env s) r else r"
  have m: "map ident (map ?g rs) = map ident rs" by (induction rs) auto
  have "sweepStore env (s # stale) rs = sweepStore env stale (map ?g rs)"
    using Cons.prems by (simp add: sweepStore_def updateFirst_distinct)
  also have "\<dots> = map (\<lambda>r. foldl (\<lambda>r s. if ident r = ident s
                             then applyValidation (dateNow env) (validationOf env s) r else r)
                 r stale) (map ?g rs)"
  proof (rule Cons.IH)
    show "distinct (map ident (map ?g rs))"
      unfolding m by (rule Cons.prems)
  qed
  finally show ?case by (simp add: comp_def)
qed

lemma fold_ident:
  "ident (foldl (\<lambda>r s. if ident r = ident s
                 then applyValidation (dateNow env) (validationOf env s) r else r) r stale)
     = ident r"
  by (induction stale arbitrary: r) auto

lemma fold_untouched:
  "ident r \<notin> ident ` set stale \<Longrightarrow>
   foldl (\<lambda>r s. if ident r = ident s
                 then applyValidation (dateNow env) (validationOf env s) r else r) r stale = r"
  by (induction stale arbitrary: r) auto

lemma fold_touched:
  "distinct (map ident stale) \<Longrightarrow> s \<in> set stale \<Longrightarrow> ident r = ident s \<Longrightarrow>
   foldl (\<lambda>r s. if ident r = ident s
                 then applyValidation (dateNow env) (validationOf env s) r else r) r stale
     = applyValidation (dateNow env) (validationOf env s) r"
proof (induction stale arbitrary: r)
  case Nil
  then show ?case by simp
next
  case (Cons x xs)
  show ?case
  proof (cases "x = s")
    case True
    with Cons.prems have "ident s \<notin> ident ` set xs" by auto
    then have "ident (applyValidation (dateNow env) (validationOf env s) r) \<notin> ident ` set xs"
      using Cons.prems(3) by simp
    from fold_untouched[OF this] True Cons.prems(3) show ?thesis by simp
  next
    case False
    with Cons.prems have s: "s \<in> set xs" and d: "distinct (map ident xs)"
      and n: "ident x \<noteq> ident s"
      by auto
    from Cons.IH[OF d s Cons.prems(3)] n Cons.prems(3) show ?thesis by simp
  qed
qed

lemma find_by_ident:
  "distinct (map ident rs) \<Longrightarrow> r \<in> set rs \<Longrightarrow> find (\<lambda>x. ident x = ident r) rs = Some r"
  by (induction rs) (auto simp: image_iff)

lemma find_map_ident:
  "(\<And>x. ident (F x) = ident x) \<Longrightarrow>
   find (\<lambda>x. ident x = i) (map F rs) = map_option F (find (\<lambda>x. ident x = i) rs)"
  by (induction rs) auto

lemma selected_subset: "set (selectedBySweep env maxAge w) \<subseteq> set (registrations w)"
  by (auto simp: selectedBySweep_def dest: in_set_takeD)

lemma selected_distinct:
  "distinct (map ident (registrations w)) \<Longrightarrow>
   distinct (map ident (selectedBySweep env maxAge w))"
proof -
  assume "distinct (map ident (registrations w))"
  then have "distinct (map ident (filter (isStale (dateNow env - maxAge)) (registrations w)))"
    by (rule distinct_map_filter)
  then have "distinct (take 100
      (map ident (filter (isStale (dateNow env - maxAge)) (registrations w))))"
    by (rule distinct_take)
  then show ?thesis by (simp add: selectedBySweep_def take_map)
qed

text \<open>
  After a sweep, a selected registration is its \<open>validated\<close> copy, and a registration
  that was not selected is as it was; the sweep counts every selected registration.
\<close>

lemma sweep_selected:
  assumes "distinct (map ident (registrations w))"
    and "r \<in> set (selectedBySweep env maxAge w)"
  shows "byId (snd (validateStaleRegistrations env maxAge w)) (ident r) = Some (validated env r)"
proof -
  let ?sel = "selectedBySweep env maxAge w"
  let ?F = "\<lambda>r. foldl (\<lambda>r s. if ident r = ident s
                 then applyValidation (dateNow env) (validationOf env s) r else r) r ?sel"
  have idF: "ident (?F x) = ident x" for x
    by (rule fold_ident)
  from assms(2) selected_subset have rin: "r \<in> set (registrations w)" by blast
  have "byId (snd (validateStaleRegistrations env maxAge w)) (ident r)
          = map_option ?F (find (\<lambda>x. ident x = ident r) (registrations w))"
    using idF
    by (simp add: validateStaleRegistrations_eq byId_def sweepStore_map[OF assms(1)]
          find_map_ident)
  also have "\<dots> = Some (?F r)"
    by (simp add: find_by_ident[OF assms(1) rin])
  also have "?F r = validated env r"
    using fold_touched[OF selected_distinct[OF assms(1)] assms(2), of r env]
    by (simp add: validated_def)
  finally show ?thesis .
qed

lemma sweep_unselected:
  assumes "distinct (map ident (registrations w))"
    and "r \<in> set (registrations w)"
    and "r \<notin> set (selectedBySweep env maxAge w)"
  shows "byId (snd (validateStaleRegistrations env maxAge w)) (ident r) = Some r"
proof -
  let ?sel = "selectedBySweep env maxAge w"
  let ?F = "\<lambda>r. foldl (\<lambda>r s. if ident r = ident s
                 then applyValidation (dateNow env) (validationOf env s) r else r) r ?sel"
  have idF: "ident (?F x) = ident x" for x
    by (rule fold_ident)
  have "ident r \<notin> ident ` set ?sel"
  proof
    assume "ident r \<in> ident ` set ?sel"
    then obtain s where s: "s \<in> set ?sel" "ident s = ident r" by auto
    with selected_subset have "s \<in> set (registrations w)" by blast
    with assms(1,2) s(2) have "s = r"
      by (metis distinct_map inj_onD)
    with s(1) assms(3) show False by simp
  qed
  from fold_untouched[OF this] have "?F r = r" .
  moreover have "byId (snd (validateStaleRegistrations env maxAge w)) (ident r)
          = map_option ?F (find (\<lambda>x. ident x = ident r) (registrations w))"
    using idF
    by (simp add: validateStaleRegistrations_eq byId_def sweepStore_map[OF assms(1)]
          find_map_ident)
  ultimately show ?thesis
    by (simp add: find_by_ident[OF assms(1,2)])
qed

lemma selected_has_name:
  "r \<in> set (selectedBySweep env maxAge w) \<Longrightarrow> IRegistration.bnsName r \<noteq> None"
  by (auto simp: selectedBySweep_def isStale_def dest!: in_set_takeD)

lemma sampleRegistration_selected:
  "selectedBySweep envX dayMs worldOneRegistration = [sampleRegistration]"
  by (simp add: selectedBySweep_def worldOneRegistration_def emptyWorld_def isStale_def
        sampleRegistration_def newRegistration_def)

lemma worldOneRegistration_distinct: "distinct (map ident (registrations worldOneRegistration))"
  by (simp add: worldOneRegistration_def emptyWorld_def)


lemma registryAnswer_owned:
  "registryAnswer env a = Some names \<Longrightarrow> ownedNames env a = names"
  by (auto simp: registryAnswer_def ownedNames_def split: sum.splits option.splits if_splits)









text \<open>
  C3. The claim: a lookup that fails leaves the record's status alone, and an outage of
  the registry means that no record is validated. The code: \<open>fetchWalletBNSNames\<close> turns
  the failure into an empty list, so the sweep never sees it; the record is counted, its
  status becomes \<open>no-longer-owned\<close> and its last-validated timestamp is set. This theorem
  states what the code does.
\<close>

theorem C3_failed_lookup_marks_unowned:
  assumes "distinct (map ident (registrations w))"
    and "r \<in> set (selectedBySweep env maxAge w)"
    and "registryFails env (authorWallet r)"
  shows "fst (validateStaleRegistrations env maxAge w)
           = Inr (length (selectedBySweep env maxAge w)) \<and>
         (\<exists>r'. byId (snd (validateStaleRegistrations env maxAge w)) (ident r) = Some r' \<and>
                bnsStatus r' = Some NoLongerOwned \<and>
                lastBnsValidation r' = Some (dateNow env))"
proof -
  from assms(3) have "ownedNames env (authorWallet r) = []"
    by (auto simp: registryFails_def ownedNames_def split: sum.splits)
  then have "bnsStatus (validated env r) = Some NoLongerOwned \<and>
             lastBnsValidation (validated env r) = Some (dateNow env)"
    by (simp add: validated_def applyValidation_def validationOf_def split: option.splits)
  with sweep_selected[OF assms(1,2)] show ?thesis
    by (simp add: validateStaleRegistrations_eq)
qed

theorem C3_outage_evaluated:
  "registryFails envDown (authorWallet sampleRegistration) \<and>
   map bnsStatus (registrations worldOneRegistration) = [Some Valid] \<and>
   fst (validateStaleRegistrations envDown dayMs worldOneRegistration) = Inr 1 \<and>
   (\<exists>r'. byId (snd (validateStaleRegistrations envDown dayMs worldOneRegistration))
            (ident sampleRegistration) = Some r' \<and>
          bnsStatus r' = Some NoLongerOwned \<and>
          lastBnsValidation r' = Some (dateNow envDown))"
proof -
  have f: "registryFails envDown (authorWallet sampleRegistration)"
    by (simp add: registryFails_def envDown_def envOnlyV1_def)
  have s: "sampleRegistration \<in> set (selectedBySweep envDown dayMs worldOneRegistration)"
    by (simp add: sampleRegistration_selected)
  have v: "map bnsStatus (registrations worldOneRegistration) = [Some Valid]"
    by (simp add: worldOneRegistration_def emptyWorld_def sampleRegistration_def
          newRegistration_def)
  from C3_failed_lookup_marks_unowned[OF worldOneRegistration_distinct s f] f v
  show ?thesis by (simp add: sampleRegistration_selected)
qed

subsection \<open>Who writes the binding status\<close>

lemma keeps_return: "keepsBnsStatus (io_return x)"
  by (simp add: keepsBnsStatus_def io_defs)

lemma keeps_throw: "keepsBnsStatus (io_throw e)"
  by (simp add: keepsBnsStatus_def io_defs)

lemma keeps_lift: "keepsBnsStatus (io_lift r)"
  by (simp add: keepsBnsStatus_def io_defs)

lemma keeps_read: "keepsBnsStatus (io_read f)"
  by (simp add: keepsBnsStatus_def io_defs)

lemma keeps_bind:
  "keepsBnsStatus m \<Longrightarrow> (\<And>x. keepsBnsStatus (f x)) \<Longrightarrow> keepsBnsStatus (io_bind m f)"
  unfolding keepsBnsStatus_def io_bind_def
  by (auto split: prod.splits sum.splits) (metis snd_conv)+

lemma keeps_catch:
  "keepsBnsStatus m \<Longrightarrow> (\<And>e. keepsBnsStatus (h e)) \<Longrightarrow> keepsBnsStatus (io_catch m h)"
  unfolding keepsBnsStatus_def io_catch_def
  by (auto split: prod.splits sum.splits) (metis snd_conv)+

lemma keeps_modify:
  "(\<And>w. map bnsStatus (registrations (f w)) = map bnsStatus (registrations w)) \<Longrightarrow>
   keepsBnsStatus (io_modify f)"
  by (simp add: keepsBnsStatus_def io_defs)

lemmas keeps_intros = keeps_return keeps_throw keeps_lift keeps_read keeps_bind keeps_catch

lemma countVerification_bnsStatus:
  "map bnsStatus (updateFirst P (countVerification now) rs) = map bnsStatus rs"
  by (induction rs) (auto simp: countVerification_def)

lemma keeps_callReadOnly: "keepsBnsStatus (callReadOnly env c)"
  by (simp add: keepsBnsStatus_def callReadOnly_def)

lemma keeps_hashExistsOnContract: "keepsBnsStatus (hashExistsOnContract env config a n h)"
  unfolding hashExistsOnContract_def
  by (intro keeps_intros keeps_callReadOnly)

lemma keeps_verifyOnContract: "keepsBnsStatus (verifyOnContract env config a n h)"
  by (simp add: keepsBnsStatus_def verifyOnContract_eq)

lemma keeps_BlockchainService_verifyTweet:
  "keepsBnsStatus (BlockchainService_verifyTweet env config h)"
  by (simp add: keepsBnsStatus_def BlockchainService_verifyTweet_eq)

lemma keeps_deleteCache: "keepsBnsStatus (io_modify (deleteCache h))"
  by (rule keeps_modify) (simp add: deleteCache_def)

lemma keeps_upsertCache: "keepsBnsStatus (io_modify (upsertCache env h res))"
  by (rule keeps_modify) (simp add: upsertCache_def)

lemma keeps_count:
  "keepsBnsStatus (io_modify (\<lambda>w. w\<lparr>registrations :=
      updateFirst P (countVerification now) (registrations w)\<rparr>))"
  by (rule keeps_modify) (simp add: countVerification_bnsStatus)

lemma keeps_cacheStep: "keepsBnsStatus (cacheStep env h)"
  unfolding cacheStep_def
  by (auto intro!: keeps_intros keeps_deleteCache keeps_count split: option.splits)

lemma keeps_storeStep: "keepsBnsStatus (storeStep env h)"
  unfolding storeStep_def
  by (auto intro!: keeps_intros keeps_upsertCache keeps_count split: option.splits)

lemma keeps_chainStep: "keepsBnsStatus (chainStep env config req h)"
  unfolding chainStep_def
  by (auto intro!: keeps_intros keeps_upsertCache keeps_BlockchainService_verifyTweet
        split: option.splits)

lemma keeps_verifyTweet: "keepsBnsStatus (VerificationController_verifyTweet env config req)"
  unfolding VerificationController_verifyTweet_def
  by (auto intro!: keeps_intros keeps_cacheStep keeps_storeStep keeps_chainStep
        split: option.splits)

lemma keeps_quickVerify: "keepsBnsStatus (quickVerify env config hp)"
  unfolding quickVerify_def hashExists_def
  by (auto intro!: keeps_intros keeps_hashExistsOnContract split: option.splits)

lemma keeps_batchVerify: "keepsBnsStatus (batchVerify env config itemsField)"
proof -
  have "keepsBnsStatus (processItems env config its acc)" for its acc
    by (simp add: keepsBnsStatus_def processItems_eq)
  then show ?thesis
    unfolding batchVerify_def
    by (auto intro!: keeps_intros split: items_field.splits)
qed

text \<open>The writers of \<open>RegistrationController\<close> and the methods of the schema.\<close>

lemma updateFirst_bnsStatus:
  "(\<And>r. bnsStatus (f r) = bnsStatus r) \<Longrightarrow>
   map bnsStatus (updateFirst P f rs) = map bnsStatus rs"
  by (induction rs) auto

lemma keeps_confirmUpdate: "keepsBnsStatus (confirmUpdate now hashHex tx height regId)"
  unfolding confirmUpdate_def
  by (rule keeps_modify) (simp add: updateFirst_bnsStatus)

lemma keeps_countView: "keepsBnsStatus (countView now docId)"
  unfolding countView_def
  by (rule keeps_modify) (simp add: updateFirst_bnsStatus)

lemma keeps_saveDocument:
  "(\<And>r. bnsStatus (change r) = bnsStatus r) \<Longrightarrow> keepsBnsStatus (saveDocument docId change)"
  unfolding saveDocument_def
  by (rule keeps_modify) (simp add: updateFirst_bnsStatus)

lemma methods_bnsStatus:
  "bnsStatus (updateBlockchainStatus newStatus assignB r) = bnsStatus r"
  "bnsStatus (incrementViews now r) = bnsStatus r"
  "bnsStatus (incrementVerifications now r) = bnsStatus r"
  "bnsStatus (setIPFSData now assignI r) = bnsStatus r"
  by (simp_all add: updateBlockchainStatus_def incrementViews_def incrementVerifications_def
        setIPFSData_def)

lemma saveRegistration_appends:
  "registrations (snd (saveRegistration doc w)) = registrations w \<or>
   registrations (snd (saveRegistration doc w)) = registrations w @ [doc]"
  by (simp add: saveRegistration_def)


lemma worldTransferred_facts:
  "registrations worldTransferred = [transferredRegistration]"
  "registryCalls worldTransferred = []"
  "distinct (map ident (registrations worldTransferred))"
  by (simp_all add: worldTransferred_def emptyWorld_def)

lemma transferredRegistration_selected:
  "selectedBySweep envOwnsAlice dayMs worldTransferred = [transferredRegistration]"
  by (simp add: selectedBySweep_def worldTransferred_facts isStale_def
        transferredRegistration_def sampleRegistration_def newRegistration_def
        envOwnsAlice_def envOnlyV1_def dayMs_def)

lemma transferredRegistration_fields:
  "bnsStatus transferredRegistration = Some Transferred"
  "IRegistration.bnsName transferredRegistration = Some ''alice.btc''"
  by (simp_all add: transferredRegistration_def sampleRegistration_def newRegistration_def)

lemma ownedNames_envOwnsAlice: "ownedNames envOwnsAlice a = [''alice.btc'']"
  by (simp add: ownedNames_def envOwnsAlice_def envOnlyV1_def)

lemma registryAnswer_envOwnsAlice: "registryAnswer envOwnsAlice a = Some [''alice.btc'']"
  by (simp add: registryAnswer_def envOwnsAlice_def envOnlyV1_def)

lemma validated_status:
  assumes "IRegistration.bnsName r = Some n"
    and "ownedNames env (authorWallet r) = names"
  shows "bnsStatus (validated env r) = Some Valid \<longleftrightarrow> n \<in> set names"
    and "bnsStatus (validated env r) = Some Transferred \<longleftrightarrow> names \<noteq> [] \<and> n \<notin> set names"
    and "bnsStatus (validated env r) = Some NoLongerOwned \<longleftrightarrow> names = []"
  using assms by (auto simp: validated_def applyValidation_def validationOf_def)

text \<open>
  C4, as the code has it. A registration is created with binding status \<open>valid\<close>.
  Only the Validator changes the binding status of a stored registration: the
  verification endpoints, the confirmation of a registration, the view counter and the
  saving methods of the schema leave the status of every stored registration as it
  was, and saving a new registration adds that registration at most. A sweep leaves
  the registrations it did not select as they were (the documents of the store having
  distinct \<open>_id\<close>s). For a registration it selected and whose lookup succeeds with the
  list \<open>names\<close>, it sets the status to the classification of \<open>names\<close>, whatever the
  status was before: \<open>valid\<close> exactly when \<open>names\<close> contains the original name,
  \<open>transferred\<close> exactly when \<open>names\<close> is not empty and lacks it, \<open>no-longer-owned\<close>
  exactly when \<open>names\<close> is empty.
\<close>

theorem C4_status_follows_registry:
  "bnsStatus (newRegistration newId now hashHex walletAddress bns tweetUrl handle stored)
     = Some Valid \<and>
   (registrations (snd (saveRegistration doc w)) = registrations w \<or>
    registrations (snd (saveRegistration doc w)) = registrations w @ [doc]) \<and>
   map bnsStatus (registrations (snd (VerificationController_verifyTweet env config req w)))
     = map bnsStatus (registrations w) \<and>
   map bnsStatus (registrations (snd (quickVerify env config hashParam w)))
     = map bnsStatus (registrations w) \<and>
   map bnsStatus (registrations (snd (batchVerify env config itemsField w)))
     = map bnsStatus (registrations w) \<and>
   map bnsStatus (registrations (snd (confirmUpdate now hashHex tx height regId w)))
     = map bnsStatus (registrations w) \<and>
   map bnsStatus (registrations (snd (countView now docId w)))
     = map bnsStatus (registrations w) \<and>
   map bnsStatus (registrations (snd (saveDocument docId
       (updateBlockchainStatus newStatus assignB) w)))
     = map bnsStatus (registrations w) \<and>
   map bnsStatus (registrations (snd (saveDocument docId (incrementViews now) w)))
     = map bnsStatus (registrations w) \<and>
   map bnsStatus (registrations (snd (saveDocument docId (incrementVerifications now) w)))
     = map bnsStatus (registrations w) \<and>
   map bnsStatus (registrations (snd (saveDocument docId (setIPFSData now assignI) w)))
     = map bnsStatus (registrations w) \<and>
   (distinct (map ident (registrations w)) \<and> r \<in> set (registrations w) \<and>
    r \<notin> set (selectedBySweep env maxAge w)
      \<longrightarrow> byId (snd (validateStaleRegistrations env maxAge w)) (ident r) = Some r) \<and>
   (distinct (map ident (registrations w)) \<and> r \<in> set (selectedBySweep env maxAge w) \<and>
    registryAnswer env (authorWallet r) = Some names
      \<longrightarrow> (\<exists>r' n. byId (snd (validateStaleRegistrations env maxAge w)) (ident r) = Some r' \<and>
             IRegistration.bnsName r = Some n \<and>
             (bnsStatus r' = Some Valid \<longleftrightarrow> n \<in> set names) \<and>
             (bnsStatus r' = Some Transferred \<longleftrightarrow> names \<noteq> [] \<and> n \<notin> set names) \<and>
             (bnsStatus r' = Some NoLongerOwned \<longleftrightarrow> names = [])))"
proof -
  have a: "bnsStatus (newRegistration newId now hashHex walletAddress bns tweetUrl handle stored)
             = Some Valid"
    by (simp add: newRegistration_def)
  have a': "registrations (snd (saveRegistration doc w)) = registrations w \<or>
    registrations (snd (saveRegistration doc w)) = registrations w @ [doc]"
    by (rule saveRegistration_appends)
  have b: "map bnsStatus (registrations (snd (VerificationController_verifyTweet env config req w)))
     = map bnsStatus (registrations w)"
    using keeps_verifyTweet[of env config req] by (simp add: keepsBnsStatus_def)
  have c: "map bnsStatus (registrations (snd (quickVerify env config hashParam w)))
     = map bnsStatus (registrations w)"
    using keeps_quickVerify[of env config hashParam] by (simp add: keepsBnsStatus_def)
  have d: "map bnsStatus (registrations (snd (batchVerify env config itemsField w)))
     = map bnsStatus (registrations w)"
    using keeps_batchVerify[of env config itemsField] by (simp add: keepsBnsStatus_def)
  have g1: "map bnsStatus (registrations (snd (confirmUpdate now hashHex tx height regId w)))
     = map bnsStatus (registrations w)"
    using keeps_confirmUpdate[of now hashHex tx height regId] by (simp add: keepsBnsStatus_def)
  have g2: "map bnsStatus (registrations (snd (countView now docId w)))
     = map bnsStatus (registrations w)"
    using keeps_countView[of now docId] by (simp add: keepsBnsStatus_def)
  have g3: "map bnsStatus (registrations (snd (saveDocument docId change w)))
     = map bnsStatus (registrations w)" if "\<And>r. bnsStatus (change r) = bnsStatus r" for change
    using keeps_saveDocument[of change docId, OF that] by (simp add: keepsBnsStatus_def)
  have e: "distinct (map ident (registrations w)) \<and> r \<in> set (registrations w) \<and>
    r \<notin> set (selectedBySweep env maxAge w)
      \<longrightarrow> byId (snd (validateStaleRegistrations env maxAge w)) (ident r) = Some r"
    using sweep_unselected[of w r env maxAge] by blast
  have f: "distinct (map ident (registrations w)) \<and> r \<in> set (selectedBySweep env maxAge w) \<and>
    registryAnswer env (authorWallet r) = Some names
      \<longrightarrow> (\<exists>r' n. byId (snd (validateStaleRegistrations env maxAge w)) (ident r) = Some r' \<and>
             IRegistration.bnsName r = Some n \<and>
             (bnsStatus r' = Some Valid \<longleftrightarrow> n \<in> set names) \<and>
             (bnsStatus r' = Some Transferred \<longleftrightarrow> names \<noteq> [] \<and> n \<notin> set names) \<and>
             (bnsStatus r' = Some NoLongerOwned \<longleftrightarrow> names = []))"
  proof
    assume h: "distinct (map ident (registrations w)) \<and> r \<in> set (selectedBySweep env maxAge w) \<and>
      registryAnswer env (authorWallet r) = Some names"
    then have s: "byId (snd (validateStaleRegistrations env maxAge w)) (ident r)
                    = Some (validated env r)"
      using sweep_selected by blast
    from h selected_has_name obtain n where n: "IRegistration.bnsName r = Some n" by blast
    from h registryAnswer_owned have o: "ownedNames env (authorWallet r) = names" by blast
    from validated_status[OF n o] s n
    show "\<exists>r' n. byId (snd (validateStaleRegistrations env maxAge w)) (ident r) = Some r' \<and>
             IRegistration.bnsName r = Some n \<and>
             (bnsStatus r' = Some Valid \<longleftrightarrow> n \<in> set names) \<and>
             (bnsStatus r' = Some Transferred \<longleftrightarrow> names \<noteq> [] \<and> n \<notin> set names) \<and>
             (bnsStatus r' = Some NoLongerOwned \<longleftrightarrow> names = [])"
      by blast
  qed
  show ?thesis
    using a a' b c d g1 g2 g3[of "updateBlockchainStatus newStatus assignB"]
      g3[of "incrementViews now"] g3[of "incrementVerifications now"]
      g3[of "setIPFSData now assignI"] e f
    by (simp only: methods_bnsStatus simp_thms)
qed

theorem C4_witness:
  "distinct (map ident (registrations worldTransferred)) \<and>
   transferredRegistration \<in> set (selectedBySweep envOwnsAlice dayMs worldTransferred) \<and>
   registryAnswer envOwnsAlice (authorWallet transferredRegistration) = Some [''alice.btc''] \<and>
   bnsStatus transferredRegistration = Some Transferred \<and>
   (\<exists>r'. byId (snd (validateStaleRegistrations envOwnsAlice dayMs worldTransferred))
            (ident transferredRegistration) = Some r' \<and>
          bnsStatus r' = Some Valid)"
proof -
  have s: "transferredRegistration \<in> set (selectedBySweep envOwnsAlice dayMs worldTransferred)"
    by (simp add: transferredRegistration_selected)
  from C4_status_follows_registry[where env = envOwnsAlice and w = worldTransferred
      and r = transferredRegistration and maxAge = dayMs and names = "[''alice.btc'']"
      and newId = 2 and now = 1762000000000 and hashHex = sampleHashHex
      and walletAddress = "[]" and bns = None and tweetUrl = None and handle = None
      and stored = None and doc = sampleRegistration and config = mainnetConfig
      and req = requestByHash and hashParam = None and itemsField = NotAnArray
      and tx = "[]" and height = None and regId = None and docId = 1
      and newStatus = Confirmed and assignB = "\<lambda>b. b" and assignI = "\<lambda>i. i"]
    worldTransferred_facts(3) s registryAnswer_envOwnsAlice
  have "\<exists>r' n. byId (snd (validateStaleRegistrations envOwnsAlice dayMs worldTransferred))
                  (ident transferredRegistration) = Some r' \<and>
          IRegistration.bnsName transferredRegistration = Some n \<and>
          (bnsStatus r' = Some Valid \<longleftrightarrow> n \<in> set [''alice.btc''])"
    by blast
  then have "\<exists>r'. byId (snd (validateStaleRegistrations envOwnsAlice dayMs worldTransferred))
            (ident transferredRegistration) = Some r' \<and> bnsStatus r' = Some Valid"
    by (auto simp: transferredRegistration_fields)
  with worldTransferred_facts(3) s transferredRegistration_fields(1) registryAnswer_envOwnsAlice
  show ?thesis by blast
qed

text \<open>
  The claim as worded fails: a registration that an earlier sweep marked \<open>transferred\<close>
  is marked \<open>valid\<close> again by the next sweep that finds its name in the wallet's list.
\<close>

theorem C4_counterexample:
  "map bnsStatus (registrations worldTransferred) = [Some Transferred] \<and>
   map bnsStatus (registrations (snd (validateStaleRegistrations envOwnsAlice dayMs
                                        worldTransferred))) = [Some Valid]"
proof -
  have "bnsStatus (validated envOwnsAlice transferredRegistration) = Some Valid"
    by (simp add: validated_def applyValidation_def validationOf_def
          transferredRegistration_fields ownedNames_envOwnsAlice)
  then show ?thesis
    by (simp add: validateStaleRegistrations_eq transferredRegistration_selected
          sweepStore_def validated_def worldTransferred_facts transferredRegistration_fields)
qed


end
